theory Spec2Isabelle
  imports Main "HOL-Library.Word" "HOL-Library.Sublist"
begin

section \<open>Print agent of the queue system: data model\<close>

text \<open>
  The agent (\<^verbatim>\<open>cmd/print-agent/agent.go\<close>) talks to a server over HTTP, reads a
  server-sent event stream and drives a thermal printer
  (\<^verbatim>\<open>internal/printer/printer.go\<close>).  Everything outside the process (the HTTP
  server, the event stream, the operating system's printer transport, the stop channel
  and the timer) is a world of type \<open>'w\<close> that every call takes and returns; the calls
  the agent makes are recorded, in program order, in a list of actions.
\<close>

type_synonym int64 = "64 word"

subsection \<open>Decimal formatting (\<^verbatim>\<open>%d\<close>)\<close>

definition digit_char :: "nat \<Rightarrow> char" where
  "digit_char d = char_of (48 + d)"

function show_nat :: "nat \<Rightarrow> string" where
  "show_nat n = (if n < 10 then [digit_char n] else show_nat (n div 10) @ [digit_char (n mod 10)])"
  by pat_completeness auto
termination
  by (relation "measure (\<lambda>n. n)") auto

declare show_nat.simps [simp del]

definition show_int :: "int \<Rightarrow> string" where
  "show_int i = (if i < 0 then CHR ''-'' # show_nat (nat (- i)) else show_nat (nat i))"

subsection \<open>Strings (\<^verbatim>\<open>strings.HasPrefix\<close>, \<^verbatim>\<open>strings.TrimPrefix\<close>)\<close>

definition HasPrefix :: "string \<Rightarrow> string \<Rightarrow> bool" where
  "HasPrefix s p = prefix p s"

definition TrimPrefix :: "string \<Rightarrow> string \<Rightarrow> string" where
  "TrimPrefix s p = (if HasPrefix s p then drop (length p) s else s)"

subsection \<open>Records of the agent and of the printer package\<close>

record AgentConfig =
  AgentID :: string
  ServerURL :: string
  PrinterName :: string
  RetryDelay :: int64

record PrinterConfig =
  PrinterName_p :: string
  Enabled :: bool

record TicketTemplate =
  Header :: string
  Subheader :: string
  Title :: string
  Footer1 :: string
  Footer2 :: string
  Thanks :: string
  ShowSubheader :: bool
  ShowType :: bool
  ShowDatetime :: bool
  ShowFooter :: bool
  ShowThanks :: bool

record TicketData =
  QueueNumber_t :: string
  TypeName_t :: string
  DateTime_t :: string

record PrintAgent =
  config :: AgentConfig
  printer :: PrinterConfig

record PrintJobResponse =
  ID :: int64
  QueueNumber :: string
  TypeName :: string
  DateTime :: string
  TemplateJSON :: string
  Status :: string

record SSEEvent =
  Type :: string
  Data :: string

record PrintJobEvent =
  JobID :: int64
  QueueNumber_e :: string

definition NewPrintAgent :: "AgentConfig \<Rightarrow> PrintAgent" where
  "NewPrintAgent cfg =
     \<lparr>config = cfg, printer = \<lparr>PrinterName_p = PrinterName cfg, Enabled = True\<rparr>\<rparr>"

subsection \<open>The world and the actions of the agent\<close>

text \<open>
  An HTTP call either fails in the transport (Go's \<^verbatim>\<open>err != nil\<close>) or yields a status
  code and a body.  For the event stream the body is read line by line afterwards, by
  \<open>sse_scan\<close>.
\<close>

datatype http_reply = TransportError string | Response int string

datatype sse_reply = SSEConnectError string | SSEResponse int

text \<open>
  \<^verbatim>\<open>scanner.Scan()\<close> yields a line, or returns false with \<^verbatim>\<open>scanner.Err()\<close> nil
  (clean end of the stream) or not nil (read error).
\<close>

datatype scan_result = Line string | EndOfStream | ReadError string

text \<open>
  What the operating system does with the bytes in \<^verbatim>\<open>sendToPrinter\<close>: writing the
  temporary file may fail, and the PowerShell command may fail with its output.
\<close>

datatype os_print_result = Printed | WriteFileFailed string | CommandFailed string string

text \<open>A request body: a literal string, or \<^verbatim>\<open>json.Marshal\<close> of a string map.\<close>

datatype body = RawBody string | JsonMap "(string \<times> string) list"

text \<open>The arguments of a \<^verbatim>\<open>log.Printf\<close> call.\<close>

datatype arg = ArgInt int | ArgStr string | ArgDuration int64

text \<open>The three places of the source where the stop channel is read.\<close>

datatype stop_point = InStream | AfterStream | DuringDelay

datatype action =
    Log string "arg list"
  | HttpGet string
  | HttpPost string string body
  | SSEGet string
  | Scan
  | StopCheck stop_point bool
  | TimeAfter int64
  | SendToPrinter string string
  | Go int64

record 'w env =
  http_get :: "string \<Rightarrow> 'w \<Rightarrow> http_reply \<times> 'w"
  http_post :: "string \<Rightarrow> string \<Rightarrow> body \<Rightarrow> 'w \<Rightarrow> http_reply \<times> 'w"
  sse_get :: "string \<Rightarrow> 'w \<Rightarrow> sse_reply \<times> 'w"
  sse_scan :: "'w \<Rightarrow> scan_result \<times> 'w"
  stop_closed :: "'w \<Rightarrow> bool \<times> 'w"
  wait_or_stop :: "int64 \<Rightarrow> 'w \<Rightarrow> bool \<times> 'w"
  os_print :: "string \<Rightarrow> string \<Rightarrow> 'w \<Rightarrow> os_print_result \<times> 'w"
  unmarshal_jobs :: "string \<Rightarrow> string + PrintJobResponse list"
  unmarshal_job :: "string \<Rightarrow> string + PrintJobResponse"
  unmarshal_template :: "string \<Rightarrow> string + TicketTemplate"
  unmarshal_event :: "string \<Rightarrow> string + SSEEvent"
  unmarshal_print_job_event :: "string \<Rightarrow> string + PrintJobEvent"

section \<open>The printer package\<close>

subsection \<open>ESC/POS commands\<close>

definition ESC :: char where "ESC = CHR 0x1B"
definition GS :: char where "GS = CHR 0x1D"
definition INIT :: string where "INIT = [ESC, CHR ''@'']"
definition ALIGN_CENTER :: string where "ALIGN_CENTER = [ESC, CHR ''a'', CHR 0x01]"
definition BOLD_ON :: string where "BOLD_ON = [ESC, CHR ''E'', CHR 0x01]"
definition BOLD_OFF :: string where "BOLD_OFF = [ESC, CHR ''E'', CHR 0x00]"
definition DOUBLE_ON :: string where "DOUBLE_ON = [GS, CHR ''!'', CHR 0x11]"
definition DOUBLE_OFF :: string where "DOUBLE_OFF = [GS, CHR ''!'', CHR 0x00]"
definition FONT_B :: string where "FONT_B = [ESC, CHR ''M'', CHR 0x01]"
definition FONT_A :: string where "FONT_A = [ESC, CHR ''M'', CHR 0x00]"
definition CUT :: string where "CUT = [GS, CHR ''V'', CHR 0x42, CHR 0x03]"
definition FEED_LINE :: string where "FEED_LINE = [ESC, CHR ''d'', CHR 0x01]"
definition FEED_LINES :: string where "FEED_LINES = [ESC, CHR ''d'', CHR 0x03]"

definition newline :: string where "newline = [CHR 0x0A]"

definition dashed_line :: string where
  "dashed_line = ''--------------------------------'' @ newline"

definition or_default :: "string \<Rightarrow> string \<Rightarrow> string" where
  "or_default s d = (if s = [] then d else s)"

subsection \<open>\<^verbatim>\<open>PrintTicket\<close> and \<^verbatim>\<open>sendToPrinter\<close>\<close>

text \<open>The buffer that \<^verbatim>\<open>PrintTicket\<close> fills, write by write.\<close>

definition ticket_bytes :: "TicketData \<Rightarrow> TicketTemplate \<Rightarrow> string" where
  "ticket_bytes data template =
     INIT
     @ ALIGN_CENTER @ BOLD_ON
     @ (or_default (Header template) ''SISTEM ANTRIAN'' @ newline)
     @ BOLD_OFF
     @ (if ShowSubheader template \<and> Subheader template \<noteq> []
        then FONT_B @ (Subheader template @ newline) @ FONT_A else [])
     @ dashed_line
     @ FONT_B
     @ (or_default (Title template) ''NOMOR ANTRIAN ANDA'' @ newline)
     @ FONT_A
     @ FEED_LINE @ DOUBLE_ON @ BOLD_ON
     @ (QueueNumber_t data @ newline)
     @ BOLD_OFF @ DOUBLE_OFF
     @ (if ShowType template
        then FEED_LINE @ BOLD_ON @ (TypeName_t data @ newline) @ BOLD_OFF else [])
     @ dashed_line
     @ (if ShowDatetime template
        then FONT_B @ (DateTime_t data @ newline) @ FONT_A else [])
     @ (if ShowFooter template
        then dashed_line @ FONT_B
             @ (or_default (Footer1 template) ''Mohon menunggu hingga'' @ newline)
             @ (or_default (Footer2 template) ''nomor Anda dipanggil'' @ newline)
             @ FONT_A
        else [])
     @ (if ShowThanks template
        then newline @ FONT_B
             @ (or_default (Thanks template) ''Terima kasih'' @ newline)
             @ FONT_A
        else [])
     @ FEED_LINES @ CUT"

text \<open>
  \<^verbatim>\<open>sendToPrinter\<close>: the printer name defaults to ECO80; the result is nil
  (\<open>None\<close>) or the error built from what the operating system reported.
\<close>

definition sendToPrinter ::
  "'w env \<Rightarrow> PrinterConfig \<Rightarrow> string \<Rightarrow> 'w \<Rightarrow> string option \<times> action list \<times> 'w" where
  "sendToPrinter env p data w =
     (let printerName = or_default (PrinterName_p p) ''ECO80'' in
      case os_print env printerName data w of
        (WriteFileFailed err, w') \<Rightarrow>
          (Some (''failed to write temp file: '' @ err), [SendToPrinter printerName data], w')
      | (CommandFailed err output, w') \<Rightarrow>
          (Some (''print failed: '' @ err @ '', output: '' @ output),
           [SendToPrinter printerName data], w')
      | (Printed, w') \<Rightarrow> (None, [SendToPrinter printerName data], w'))"

definition PrintTicket ::
  "'w env \<Rightarrow> PrinterConfig \<Rightarrow> TicketData \<Rightarrow> TicketTemplate \<Rightarrow> 'w
     \<Rightarrow> string option \<times> action list \<times> 'w" where
  "PrintTicket env p data template w =
     (if \<not> Enabled p then (Some ''printer is disabled'', [], w)
      else sendToPrinter env p (ticket_bytes data template) w)"

section \<open>The agent\<close>

subsection \<open>The endpoints\<close>

definition pending_url :: "PrintAgent \<Rightarrow> string" where
  "pending_url a = ServerURL (config a) @ ''/api/print-agent/jobs/pending''"

definition sse_url :: "PrintAgent \<Rightarrow> string" where
  "sse_url a = ServerURL (config a) @ ''/api/print-agent/sse?agent_id='' @ AgentID (config a)"

definition claim_url :: "PrintAgent \<Rightarrow> int64 \<Rightarrow> string" where
  "claim_url a jobID =
     ServerURL (config a) @ ''/api/print-agent/job/'' @ show_int (sint jobID) @ ''/claim''"

definition complete_url :: "PrintAgent \<Rightarrow> int64 \<Rightarrow> string" where
  "complete_url a jobID =
     ServerURL (config a) @ ''/api/print-agent/job/'' @ show_int (sint jobID) @ ''/complete''"

definition fail_url :: "PrintAgent \<Rightarrow> int64 \<Rightarrow> string" where
  "fail_url a jobID =
     ServerURL (config a) @ ''/api/print-agent/job/'' @ show_int (sint jobID) @ ''/fail''"

subsection \<open>\<^verbatim>\<open>claimJob\<close>, \<^verbatim>\<open>completeJob\<close>, \<^verbatim>\<open>failJob\<close>\<close>

text \<open>\<open>Inl\<close> is the error of the Go function, \<open>Inr\<close> the job it returns.\<close>

definition claimJob ::
  "'w env \<Rightarrow> PrintAgent \<Rightarrow> int64 \<Rightarrow> 'w \<Rightarrow> (string + PrintJobResponse) \<times> action list \<times> 'w" where
  "claimJob env a jobID w =
     (let url = claim_url a jobID;
          body = JsonMap [(''agent_id'', AgentID (config a))];
          t = [HttpPost url ''application/json'' body] in
      case http_post env url ''application/json'' body w of
        (TransportError err, w') \<Rightarrow> (Inl err, t, w')
      | (Response code respBody, w') \<Rightarrow>
          if code \<noteq> 200
          then (Inl (''claim returned '' @ show_int code @ '': '' @ respBody), t, w')
          else (case unmarshal_job env respBody of
                  Inl err \<Rightarrow> (Inl err, t, w')
                | Inr job \<Rightarrow> (Inr job, t, w')))"

definition completeJob :: "'w env \<Rightarrow> PrintAgent \<Rightarrow> int64 \<Rightarrow> 'w \<Rightarrow> action list \<times> 'w" where
  "completeJob env a jobID w =
     (let url = complete_url a jobID;
          t = [HttpPost url ''application/json'' (RawBody ''{}'')] in
      case http_post env url ''application/json'' (RawBody ''{}'') w of
        (TransportError err, w') \<Rightarrow>
          (t @ [Log ''Failed to mark job #%d complete: %v'' [ArgInt (sint jobID), ArgStr err]], w')
      | (Response code respBody, w') \<Rightarrow> (t, w'))"

definition failJob :: "'w env \<Rightarrow> PrintAgent \<Rightarrow> int64 \<Rightarrow> string \<Rightarrow> 'w \<Rightarrow> action list \<times> 'w" where
  "failJob env a jobID errMsg w =
     (let url = fail_url a jobID;
          body = JsonMap [(''error'', errMsg)];
          t = [HttpPost url ''application/json'' body] in
      case http_post env url ''application/json'' body w of
        (TransportError err, w') \<Rightarrow>
          (t @ [Log ''Failed to mark job #%d failed: %v'' [ArgInt (sint jobID), ArgStr err]], w')
      | (Response code respBody, w') \<Rightarrow> (t, w'))"

subsection \<open>\<^verbatim>\<open>processJob\<close>\<close>

definition processJob :: "'w env \<Rightarrow> PrintAgent \<Rightarrow> int64 \<Rightarrow> 'w \<Rightarrow> action list \<times> 'w" where
  "processJob env a jobID w =
     (case claimJob env a jobID w of
        (Inl err, t1, w1) \<Rightarrow>
          (t1 @ [Log ''Failed to claim job #%d: %v (likely already claimed)''
                   [ArgInt (sint jobID), ArgStr err]], w1)
      | (Inr claimed, t1, w1) \<Rightarrow>
          (let t2 = [Log ''Claimed job #%d: %s''
                       [ArgInt (sint jobID), ArgStr (QueueNumber claimed)]] in
           case unmarshal_template env (TemplateJSON claimed) of
             Inl err \<Rightarrow>
               (let t3 = [Log ''Failed to parse template for job #%d: %v''
                            [ArgInt (sint jobID), ArgStr err]];
                    (t4, w4) = failJob env a jobID (''failed to parse template: '' @ err) w1
                in (t1 @ t2 @ t3 @ t4, w4))
           | Inr tmpl \<Rightarrow>
               (case PrintTicket env (printer a)
                       \<lparr>QueueNumber_t = QueueNumber claimed,
                        TypeName_t = TypeName claimed,
                        DateTime_t = DateTime claimed\<rparr> tmpl w1 of
                  (Some err, t3, w3) \<Rightarrow>
                    (let t4 = [Log ''Print failed for job #%d: %v''
                                 [ArgInt (sint jobID), ArgStr err]];
                         (t5, w5) = failJob env a jobID err w3
                     in (t1 @ t2 @ t3 @ t4 @ t5, w5))
                | (None, t3, w3) \<Rightarrow>
                    (let (t4, w4) = completeJob env a jobID w3
                     in (t1 @ t2 @ t3 @ t4
                         @ [Log ''Job #%d printed successfully: %s''
                              [ArgInt (sint jobID), ArgStr (QueueNumber claimed)]], w4)))))"

subsection \<open>\<^verbatim>\<open>catchUpPendingJobs\<close>\<close>

text \<open>The \<^verbatim>\<open>for _, job := range jobs\<close> loop.\<close>

fun processJobs :: "'w env \<Rightarrow> PrintAgent \<Rightarrow> PrintJobResponse list \<Rightarrow> 'w \<Rightarrow> action list \<times> 'w" where
  "processJobs env a [] w = ([], w)"
| "processJobs env a (job # jobs) w =
     (let (t, w1) = processJob env a (ID job) w;
          (ts, w2) = processJobs env a jobs w1
      in (t @ ts, w2))"

definition catchUpPendingJobs :: "'w env \<Rightarrow> PrintAgent \<Rightarrow> 'w \<Rightarrow> action list \<times> 'w" where
  "catchUpPendingJobs env a w =
     (let url = pending_url a in
      case http_get env url w of
        (TransportError err, w1) \<Rightarrow>
          ([HttpGet url, Log ''Failed to fetch pending jobs: %v'' [ArgStr err]], w1)
      | (Response code respBody, w1) \<Rightarrow>
          if code \<noteq> 200
          then ([HttpGet url, Log ''Pending jobs returned status %d'' [ArgInt code]], w1)
          else (case unmarshal_jobs env respBody of
                  Inl err \<Rightarrow>
                    ([HttpGet url, Log ''Failed to decode pending jobs: %v'' [ArgStr err]], w1)
                | Inr jobs \<Rightarrow>
                    (let (ts, w2) = processJobs env a jobs w1
                     in ([HttpGet url,
                          Log ''Found %d pending jobs'' [ArgInt (int (length jobs))]] @ ts, w2))))"

subsection \<open>\<^verbatim>\<open>handleSSEMessage\<close>\<close>

text \<open>
  The function only logs and starts a goroutine (\<^verbatim>\<open>go a.processJob(pjEvent.JobID)\<close>,
  the action \<open>Go\<close>); it makes no call on the world.  A \<^verbatim>\<open>switch\<close> without a default
  does nothing for the other event types.
\<close>

definition handleSSEMessage :: "'w env \<Rightarrow> PrintAgent \<Rightarrow> string \<Rightarrow> action list" where
  "handleSSEMessage env a data =
     (case unmarshal_event env data of
        Inl err \<Rightarrow> [Log ''Failed to parse SSE message: %v'' [ArgStr err]]
      | Inr event \<Rightarrow>
          if Type event = ''print_job''
          then (case unmarshal_print_job_event env (Data event) of
                  Inl err \<Rightarrow> [Log ''Failed to parse print_job event: %v'' [ArgStr err]]
                | Inr pjEvent \<Rightarrow>
                    [Log ''Received print job #%d for %s''
                       [ArgInt (sint (JobID pjEvent)), ArgStr (QueueNumber_e pjEvent)],
                     Go (JobID pjEvent)])
          else [])"

subsection \<open>\<^verbatim>\<open>subscribeSSE\<close>\<close>

text \<open>
  The read loop runs as long as the stream delivers lines, so it takes fuel: one unit for
  each turn of the \<^verbatim>\<open>for\<close> loop.  \<open>Returned None\<close> is Go's nil error.
\<close>

datatype 'a fuel_result = OutOfFuel | Returned 'a

definition prepend ::
  "action list \<Rightarrow> 'r \<times> action list \<times> 'w \<Rightarrow> 'r \<times> action list \<times> 'w" where
  "prepend t x = (case x of (r, t', w) \<Rightarrow> (r, t @ t', w))"

fun sse_loop ::
  "nat \<Rightarrow> 'w env \<Rightarrow> PrintAgent \<Rightarrow> 'w \<Rightarrow> string option fuel_result \<times> action list \<times> 'w" where
  "sse_loop 0 env a w = (OutOfFuel, [], w)"
| "sse_loop (Suc n) env a w =
     (case stop_closed env w of
        (True, w1) \<Rightarrow> (Returned None, [StopCheck InStream True], w1)
      | (False, w1) \<Rightarrow>
          (case sse_scan env w1 of
             (ReadError err, w2) \<Rightarrow>
               (Returned (Some (''SSE read error: '' @ err)), [StopCheck InStream False, Scan], w2)
           | (EndOfStream, w2) \<Rightarrow>
               (Returned (Some ''SSE stream ended''), [StopCheck InStream False, Scan], w2)
           | (Line line, w2) \<Rightarrow>
               if line = [] \<or> HasPrefix line '':''
               then prepend [StopCheck InStream False, Scan] (sse_loop n env a w2)
               else if HasPrefix line ''event: ''
               then (case sse_scan env w2 of
                       (Line dataLine, w3) \<Rightarrow>
                         if \<not> HasPrefix dataLine ''data: ''
                         then prepend [StopCheck InStream False, Scan, Scan] (sse_loop n env a w3)
                         else prepend
                                ([StopCheck InStream False, Scan, Scan]
                                 @ handleSSEMessage env a (TrimPrefix dataLine ''data: ''))
                                (sse_loop n env a w3)
                     | (EndOfStream, w3) \<Rightarrow>
                         (Returned (Some ''SSE stream ended''),
                          [StopCheck InStream False, Scan, Scan], w3)
                     | (ReadError err, w3) \<Rightarrow>
                         (Returned (Some ''SSE stream ended''),
                          [StopCheck InStream False, Scan, Scan], w3))
               else prepend [StopCheck InStream False, Scan] (sse_loop n env a w2)))"

definition subscribeSSE ::
  "nat \<Rightarrow> 'w env \<Rightarrow> PrintAgent \<Rightarrow> 'w \<Rightarrow> string option fuel_result \<times> action list \<times> 'w" where
  "subscribeSSE k env a w =
     (let url = sse_url a in
      case sse_get env url w of
        (SSEConnectError err, w1) \<Rightarrow>
          (Returned (Some (''failed to connect SSE: '' @ err)), [SSEGet url], w1)
      | (SSEResponse code, w1) \<Rightarrow>
          if code \<noteq> 200
          then (Returned (Some (''SSE returned status '' @ show_int code)), [SSEGet url], w1)
          else prepend [SSEGet url, Log ''SSE connected, waiting for print jobs...'' []]
                 (sse_loop k env a w1))"

subsection \<open>\<^verbatim>\<open>Run\<close>\<close>

text \<open>
  \<^verbatim>\<open>time.Duration(a.config.RetryDelay) * time.Second\<close>, in 64 bits.
\<close>

definition retry_delay :: "PrintAgent \<Rightarrow> int64" where
  "retry_delay a = RetryDelay (config a) * 1000000000"

text \<open>
  The outer loop takes fuel \<open>n\<close>, one unit for each cycle, and gives fuel \<open>k\<close> to the
  read loop of each subscription.  \<open>stop_closed\<close> is the \<^verbatim>\<open>select\<close> with a
  \<^verbatim>\<open>default\<close> branch; \<open>wait_or_stop\<close> is the \<^verbatim>\<open>select\<close> between the timer and
  the stop channel and says whether the stop branch was taken.
\<close>

fun Run ::
  "nat \<Rightarrow> nat \<Rightarrow> 'w env \<Rightarrow> PrintAgent \<Rightarrow> 'w \<Rightarrow> unit fuel_result \<times> action list \<times> 'w" where
  "Run k 0 env a w = (OutOfFuel, [], w)"
| "Run k (Suc n) env a w =
     (case catchUpPendingJobs env a w of
        (t1, w1) \<Rightarrow>
          (case subscribeSSE k env a w1 of
             (OutOfFuel, t2, w2) \<Rightarrow>
               (OutOfFuel,
                [Log ''Catching up pending jobs...'' []] @ t1
                @ [Log ''Connecting to SSE at %s...'' [ArgStr (ServerURL (config a))]] @ t2, w2)
           | (Returned err, t2, w2) \<Rightarrow>
               (let t = [Log ''Catching up pending jobs...'' []] @ t1
                        @ [Log ''Connecting to SSE at %s...'' [ArgStr (ServerURL (config a))]] @ t2
                        @ (case err of
                             None \<Rightarrow> []
                           | Some e \<Rightarrow> [Log ''SSE connection lost: %v'' [ArgStr e]])
                in case stop_closed env w2 of
                     (True, w3) \<Rightarrow>
                       (Returned (),
                        t @ [StopCheck AfterStream True, Log ''Agent stopping...'' []], w3)
                   | (False, w3) \<Rightarrow>
                       (let delay = retry_delay a;
                            t' = t @ [StopCheck AfterStream False,
                                      Log ''Reconnecting in %v...'' [ArgDuration delay],
                                      TimeAfter delay]
                        in case wait_or_stop env delay w3 of
                             (True, w4) \<Rightarrow> (Returned (), t' @ [StopCheck DuringDelay True], w4)
                           | (False, w4) \<Rightarrow>
                               prepend (t' @ [StopCheck DuringDelay False])
                                 (Run k n env a w4)))))"

section \<open>The job store of the server\<close>

text \<open>
  The agent is the client of a dispatch protocol whose server side (the packages
  \<^verbatim>\<open>internal/database\<close> and \<^verbatim>\<open>internal/handlers\<close>, imported by \<^verbatim>\<open>main.go\<close>) is
  not among the sources.  The definitions of this section are written from the
  specification of that protocol, for one job at a time.
\<close>

text \<open>
  Modelled from the spec: the states of a print job in the missing job store, pending,
  claimed, completed and failed.
\<close>

datatype job_status = Pending | Claimed | Completed | Failed

text \<open>
  Modelled from the spec: the job record of the missing job store, with its identifier,
  its status, the claiming agent (nullable) and the error message (nullable).
\<close>

record PrintJob =
  job_id :: int64
  job_status :: job_status
  claimed_by :: "string option"
  error_message :: "string option"

datatype claim_reply = ClaimOK PrintJob | Conflict

text \<open>
  Modelled from the spec: the missing claim handler, an atomic compare-and-set on the
  status.  The transition pending to claimed has the guard that the job is pending and
  sets the claimant; on success the call returns the job record, and on a job already
  claimed or terminal it returns a conflict.
\<close>

definition claim :: "PrintJob \<Rightarrow> string \<Rightarrow> claim_reply \<times> PrintJob" where
  "claim job agentID =
     (if job_status job = Pending
      then (let job' = job\<lparr>job_status := Claimed, claimed_by := Some agentID\<rparr>
            in (ClaimOK job', job'))
      else (Conflict, job))"

text \<open>
  Modelled from the spec: the missing store serialises the claim transition per job
  (its transitions are linearizable per job), so concurrent attempts on one job take
  effect one after the other; \<open>claim_all\<close> runs them in the order in which the store
  takes them, which may be any order.
\<close>

fun claim_all :: "PrintJob \<Rightarrow> string list \<Rightarrow> claim_reply list \<times> PrintJob" where
  "claim_all job [] = ([], job)"
| "claim_all job (agentID # agents) =
     (case claim job agentID of
        (r, job') \<Rightarrow> (case claim_all job' agents of (rs, job'') \<Rightarrow> (r # rs, job'')))"

text \<open>
  Modelled from the spec: the missing complete handler.  The transition is claimed to
  completed; the call is answered with status 200, and a repeated call after a terminal
  state is a no-op.  The transition table has no row for this call on a pending job,
  which is left as it is.
\<close>

definition complete :: "PrintJob \<Rightarrow> int \<times> PrintJob" where
  "complete job =
     (if job_status job = Claimed then (200, job\<lparr>job_status := Completed\<rparr>) else (200, job))"

text \<open>
  Modelled from the spec: the missing fail handler.  The transition is claimed to failed,
  with the reason kept as the error message; the call is answered with status 200, and a
  repeated call after a terminal state is a no-op.  The transition from pending to failed
  of the table is triggered by the server's own validation, not by this call.
\<close>

definition fail :: "PrintJob \<Rightarrow> string \<Rightarrow> int \<times> PrintJob" where
  "fail job reason =
     (if job_status job = Claimed
      then (200, job\<lparr>job_status := Failed, error_message := Some reason\<rparr>)
      else (200, job))"

text \<open>A sequence of complete and fail calls on one job, as the store takes them.\<close>

datatype report_call = CompleteCall | FailCall string

fun report :: "PrintJob \<Rightarrow> report_call \<Rightarrow> int \<times> PrintJob" where
  "report job CompleteCall = complete job"
| "report job (FailCall reason) = fail job reason"

fun reports :: "PrintJob \<Rightarrow> report_call list \<Rightarrow> int list \<times> PrintJob" where
  "reports job [] = ([], job)"
| "reports job (c # cs) =
     (case report job c of
        (code, job') \<Rightarrow> (case reports job' cs of (codes, job'') \<Rightarrow> (code # codes, job'')))"

section \<open>Reading traces\<close>

text \<open>The three requests of the dispatch protocol, as the agent sends them.\<close>

definition claim_post :: "PrintAgent \<Rightarrow> int64 \<Rightarrow> action" where
  "claim_post a jobID =
     HttpPost (claim_url a jobID) ''application/json''
       (JsonMap [(''agent_id'', AgentID (config a))])"

definition complete_post :: "PrintAgent \<Rightarrow> int64 \<Rightarrow> action" where
  "complete_post a jobID = HttpPost (complete_url a jobID) ''application/json'' (RawBody ''{}'')"

definition fail_post :: "PrintAgent \<Rightarrow> int64 \<Rightarrow> string \<Rightarrow> action" where
  "fail_post a jobID errMsg =
     HttpPost (fail_url a jobID) ''application/json'' (JsonMap [(''error'', errMsg)])"

definition ticket_data :: "PrintJobResponse \<Rightarrow> TicketData" where
  "ticket_data claimed =
     \<lparr>QueueNumber_t = QueueNumber claimed, TypeName_t = TypeName claimed,
      DateTime_t = DateTime claimed\<rparr>"

fun is_log :: "action \<Rightarrow> bool" where
  "is_log (Log f args) = True"
| "is_log x = False"

text \<open>The trace without its log lines.\<close>

definition effects :: "action list \<Rightarrow> action list" where
  "effects t = filter (\<lambda>x. \<not> is_log x) t"

text \<open>A terminal report is a POST to a complete or a fail endpoint; a claim is a POST to a
  claim endpoint.\<close>

fun is_report :: "action \<Rightarrow> bool" where
  "is_report (HttpPost url ct b) = (suffix ''/complete'' url \<or> suffix ''/fail'' url)"
| "is_report x = False"

fun is_claim :: "action \<Rightarrow> bool" where
  "is_claim (HttpPost url ct b) = suffix ''/claim'' url"
| "is_claim x = False"

text \<open>The calls that make up the execution of a job: requests and printing.\<close>

fun is_call :: "action \<Rightarrow> bool" where
  "is_call (HttpGet url) = True"
| "is_call (HttpPost url ct b) = True"
| "is_call (SendToPrinter name bytes) = True"
| "is_call x = False"

text \<open>The readings of the stop channel, and the timer that the second \<^verbatim>\<open>select\<close> of
  \<^verbatim>\<open>Run\<close> sets against it.\<close>

fun is_stop_check :: "action \<Rightarrow> bool" where
  "is_stop_check (StopCheck p b) = True"
| "is_stop_check (TimeAfter d) = True"
| "is_stop_check x = False"

section \<open>An example world\<close>

text \<open>
  A server with two pending jobs, of which job 43 has been claimed by another agent in the
  meantime; the world is the rest of the event stream, and the stop channel is closed or
  not for the whole run.
\<close>

definition sample_agent :: PrintAgent where
  "sample_agent =
     NewPrintAgent \<lparr>AgentID = ''printer-1'', ServerURL = ''http://localhost:8080'',
                    PrinterName = ''ECO80'', RetryDelay = 5\<rparr>"

definition sample_job :: "int64 \<Rightarrow> PrintJobResponse" where
  "sample_job i =
     \<lparr>ID = i, QueueNumber = ''A001'', TypeName = ''Umum'', DateTime = ''01/11/2026 09:00'',
      TemplateJSON = ''tmpl'', Status = ''pending''\<rparr>"

definition sample_template :: TicketTemplate where
  "sample_template =
     \<lparr>Header = [], Subheader = [], Title = [], Footer1 = [], Footer2 = [], Thanks = [],
      ShowSubheader = False, ShowType = True, ShowDatetime = True, ShowFooter = False,
      ShowThanks = False\<rparr>"

definition sample_env :: "bool \<Rightarrow> os_print_result \<Rightarrow> scan_result list env" where
  "sample_env stop printed =
     \<lparr>http_get = (\<lambda>url w. (Response 200 ''jobs'', w)),
      http_post = (\<lambda>url ct b w.
        (if url = claim_url sample_agent 42 then Response 200 ''job42''
         else if url = claim_url sample_agent 43 then Response 409 ''job already claimed''
         else if url = claim_url sample_agent 44 then Response 200 ''job44''
         else Response 200 ''ok'', w)),
      sse_get = (\<lambda>url w. (SSEResponse 200, w)),
      sse_scan = (\<lambda>w. case w of [] \<Rightarrow> (EndOfStream, []) | x # xs \<Rightarrow> (x, xs)),
      stop_closed = (\<lambda>w. (stop, w)),
      wait_or_stop = (\<lambda>d w. (stop, w)),
      os_print = (\<lambda>name bytes w. (printed, w)),
      unmarshal_jobs = (\<lambda>s. if s = ''jobs'' then Inr [sample_job 43, sample_job 42]
                             else Inl ''unexpected end of JSON input''),
      unmarshal_job = (\<lambda>s. if s = ''job42'' then Inr (sample_job 42)
                            else if s = ''job44'' then Inr ((sample_job 44)\<lparr>TemplateJSON := ''{''\<rparr>)
                            else Inl ''unexpected end of JSON input''),
      unmarshal_template = (\<lambda>s. if s = ''tmpl'' then Inr sample_template
                                 else Inl ''unexpected end of JSON input''),
      unmarshal_event = (\<lambda>s. if s = ''print_job 42'' then Inr \<lparr>Type = ''print_job'', Data = ''42''\<rparr>
                              else if s = ''queue_called'' then Inr \<lparr>Type = ''queue_called'', Data = ''A001''\<rparr>
                              else Inl ''invalid character''),
      unmarshal_print_job_event = (\<lambda>s. if s = ''42'' then Inr \<lparr>JobID = 42, QueueNumber_e = ''A001''\<rparr>
                                        else Inl ''invalid character'')\<rparr>"

text \<open>The same server, refusing the subscription.\<close>

definition refusing_env :: "scan_result list env" where
  "refusing_env = (sample_env False Printed)\<lparr>sse_get := (\<lambda>url w. (SSEResponse 503, w))\<rparr>"

text \<open>What \<^verbatim>\<open>PrintTicket\<close> sends to the printer for a claimed job, if it is enabled.\<close>

definition print_call :: "PrintAgent \<Rightarrow> PrintJobResponse \<Rightarrow> TicketTemplate \<Rightarrow> action list" where
  "print_call a claimed tmpl =
     (if Enabled (printer a)
      then [SendToPrinter (or_default (PrinterName_p (printer a)) ''ECO80'')
              (ticket_bytes (ticket_data claimed) tmpl)]
      else [])"

text \<open>The actions of a turn of the read loop that goes on reading.\<close>

fun reads_on :: "action \<Rightarrow> bool" where
  "reads_on (StopCheck p b) = (p = InStream \<and> \<not> b)"
| "reads_on Scan = True"
| "reads_on (Log f args) = True"
| "reads_on (Go jobID) = True"
| "reads_on x = False"


section \<open>Goroutines\<close>

text \<open>
  \<^verbatim>\<open>handleSSEMessage\<close> starts \<^verbatim>\<open>processJob\<close> with a \<^verbatim>\<open>go\<close> statement: the job runs
  as a goroutine beside the read loop of \<^verbatim>\<open>subscribeSSE\<close>, and the two take turns in an
  order that the program does not fix.  A turn of the reader is one turn of its
  \<^verbatim>\<open>for\<close> loop; a turn of a job is the stretch of \<^verbatim>\<open>processJob\<close> up to and including
  its next blocking call: the claim request, the call of the printer, the report.
\<close>

subsection \<open>One turn of the read loop\<close>

text \<open>
  The body of the \<^verbatim>\<open>for\<close> loop of \<^verbatim>\<open>subscribeSSE\<close>, once: \<open>Continue\<close> is the next
  turn, \<open>Return\<close> is the \<^verbatim>\<open>return\<close> of the function, either from inside the loop or
  after its \<^verbatim>\<open>break\<close>.
\<close>

datatype turn_result = Continue | Return "string option"

definition sse_turn :: "'w env \<Rightarrow> PrintAgent \<Rightarrow> 'w \<Rightarrow> turn_result \<times> action list \<times> 'w" where
  "sse_turn env a w =
     (case stop_closed env w of
        (True, w1) \<Rightarrow> (Return None, [StopCheck InStream True], w1)
      | (False, w1) \<Rightarrow>
          (case sse_scan env w1 of
             (ReadError err, w2) \<Rightarrow>
               (Return (Some (''SSE read error: '' @ err)), [StopCheck InStream False, Scan], w2)
           | (EndOfStream, w2) \<Rightarrow>
               (Return (Some ''SSE stream ended''), [StopCheck InStream False, Scan], w2)
           | (Line line, w2) \<Rightarrow>
               if line = [] \<or> HasPrefix line '':''
               then (Continue, [StopCheck InStream False, Scan], w2)
               else if HasPrefix line ''event: ''
               then (case sse_scan env w2 of
                       (Line dataLine, w3) \<Rightarrow>
                         if \<not> HasPrefix dataLine ''data: ''
                         then (Continue, [StopCheck InStream False, Scan, Scan], w3)
                         else (Continue,
                               [StopCheck InStream False, Scan, Scan]
                               @ handleSSEMessage env a (TrimPrefix dataLine ''data: ''), w3)
                     | (EndOfStream, w3) \<Rightarrow>
                         (Return (Some ''SSE stream ended''),
                          [StopCheck InStream False, Scan, Scan], w3)
                     | (ReadError err, w3) \<Rightarrow>
                         (Return (Some ''SSE stream ended''),
                          [StopCheck InStream False, Scan, Scan], w3))
               else (Continue, [StopCheck InStream False, Scan], w2)))"

text \<open>The jobs for which a trace has a \<^verbatim>\<open>go\<close> statement, in the order of the statements.\<close>

fun started :: "action list \<Rightarrow> int64 list" where
  "started [] = []"
| "started (Go jobID # t) = jobID # started t"
| "started (x # t) = started t"

subsection \<open>\<^verbatim>\<open>processJob\<close> in steps\<close>

text \<open>
  \<^verbatim>\<open>processJob\<close>, cut after each of its blocking calls.  From \<open>Start\<close> it calls
  \<^verbatim>\<open>claimJob\<close> and parses the template; from \<open>Claimed_job\<close> it calls
  \<^verbatim>\<open>PrintTicket\<close>; from \<open>Reporting\<close> it calls \<^verbatim>\<open>failJob\<close> with the error message
  or, without one, \<^verbatim>\<open>completeJob\<close>; \<open>Finished\<close> is after its \<^verbatim>\<open>return\<close>.
\<close>

datatype job_state =
    Start int64
  | Claimed_job int64 PrintJobResponse TicketTemplate
  | Reporting int64 PrintJobResponse "string option"
  | Finished

fun job_step :: "'w env \<Rightarrow> PrintAgent \<Rightarrow> job_state \<Rightarrow> 'w \<Rightarrow> job_state \<times> action list \<times> 'w" where
  "job_step env a (Start jobID) w =
     (case claimJob env a jobID w of
        (Inl err, t1, w1) \<Rightarrow>
          (Finished,
           t1 @ [Log ''Failed to claim job #%d: %v (likely already claimed)''
                   [ArgInt (sint jobID), ArgStr err]], w1)
      | (Inr claimed, t1, w1) \<Rightarrow>
          (let t2 = [Log ''Claimed job #%d: %s''
                       [ArgInt (sint jobID), ArgStr (QueueNumber claimed)]] in
           case unmarshal_template env (TemplateJSON claimed) of
             Inl err \<Rightarrow>
               (Reporting jobID claimed (Some (''failed to parse template: '' @ err)),
                t1 @ t2 @ [Log ''Failed to parse template for job #%d: %v''
                             [ArgInt (sint jobID), ArgStr err]], w1)
           | Inr tmpl \<Rightarrow> (Claimed_job jobID claimed tmpl, t1 @ t2, w1)))"
| "job_step env a (Claimed_job jobID claimed tmpl) w =
     (case PrintTicket env (printer a)
             \<lparr>QueueNumber_t = QueueNumber claimed,
              TypeName_t = TypeName claimed,
              DateTime_t = DateTime claimed\<rparr> tmpl w of
        (Some err, t3, w3) \<Rightarrow>
          (Reporting jobID claimed (Some err),
           t3 @ [Log ''Print failed for job #%d: %v'' [ArgInt (sint jobID), ArgStr err]], w3)
      | (None, t3, w3) \<Rightarrow> (Reporting jobID claimed None, t3, w3))"
| "job_step env a (Reporting jobID claimed (Some errMsg)) w =
     (case failJob env a jobID errMsg w of (t, w') \<Rightarrow> (Finished, t, w'))"
| "job_step env a (Reporting jobID claimed None) w =
     (case completeJob env a jobID w of
        (t, w') \<Rightarrow>
          (Finished,
           t @ [Log ''Job #%d printed successfully: %s''
                  [ArgInt (sint jobID), ArgStr (QueueNumber claimed)]], w'))"
| "job_step env a Finished w = (Finished, [], w)"

subsection \<open>The read loop and its goroutines\<close>

text \<open>
  The jobs started so far are kept in a list, in the order of their \<^verbatim>\<open>go\<close>
  statements.  A schedule says who takes the next turn: the reader, or the job at an index
  of that list; it stands for the choices of the Go scheduler, and its length is the
  fuel.  A pick of an index beyond the list is no turn at all, and a job that has finished
  does nothing more.  The read loop returns with the list of the jobs as it is then:
  nothing in \<^verbatim>\<open>subscribeSSE\<close> waits for a goroutine.
\<close>

datatype pick = Reader | Goroutine nat

fun sse_sched ::
  "pick list \<Rightarrow> 'w env \<Rightarrow> PrintAgent \<Rightarrow> 'w \<Rightarrow> job_state list
     \<Rightarrow> string option fuel_result \<times> action list \<times> 'w \<times> job_state list" where
  "sse_sched [] env a w pool = (OutOfFuel, [], w, pool)"
| "sse_sched (Reader # sched) env a w pool =
     (case sse_turn env a w of
        (Return err, t, w1) \<Rightarrow> (Returned err, t, w1, pool @ map Start (started t))
      | (Continue, t, w1) \<Rightarrow> prepend t (sse_sched sched env a w1 (pool @ map Start (started t))))"
| "sse_sched (Goroutine i # sched) env a w pool =
     (if i < length pool
      then (case job_step env a (pool ! i) w of
              (st, t, w1) \<Rightarrow> prepend t (sse_sched sched env a w1 (pool[i := st])))
      else sse_sched sched env a w pool)"

subsection \<open>Two more example worlds\<close>


definition stop_when_read_env :: "scan_result list env" where
  "stop_when_read_env = (sample_env False Printed)\<lparr>stop_closed := (\<lambda>w. (w = [], w))\<rparr>"

section \<open>Lemmas on traces\<close>

lemma is_claim_claim_post [simp]: "is_claim (claim_post a j)"
  by (simp add: claim_post_def claim_url_def suffix_to_prefix)

lemma is_report_claim_post [simp]: "\<not> is_report (claim_post a j)"
  by (simp add: claim_post_def claim_url_def suffix_to_prefix)

lemma is_report_complete_post [simp]: "is_report (complete_post a j)"
  by (simp add: complete_post_def complete_url_def suffix_to_prefix)

lemma is_report_fail_post [simp]: "is_report (fail_post a j e)"
  by (simp add: fail_post_def fail_url_def suffix_to_prefix)

lemma is_claim_complete_post [simp]: "\<not> is_claim (complete_post a j)"
  by (simp add: complete_post_def complete_url_def suffix_to_prefix)

lemma is_claim_fail_post [simp]: "\<not> is_claim (fail_post a j e)"
  by (simp add: fail_post_def fail_url_def suffix_to_prefix)

lemma not_log_posts [simp]:
  "\<not> is_log (claim_post a j)" "\<not> is_log (complete_post a j)" "\<not> is_log (fail_post a j e)"
  by (simp_all add: claim_post_def complete_post_def fail_post_def)

lemma filter_report_logs: "list_all is_log l \<Longrightarrow> filter is_report l = []"
  by (induction l) (auto elim: is_log.elims)


lemma effects_logs: "list_all is_log l \<Longrightarrow> effects l = []"
  by (induction l) (auto simp: effects_def)

lemma effects_append [simp]: "effects (xs @ ys) = effects xs @ effects ys"
  by (simp add: effects_def)

lemma effects_Cons_Log [simp]: "effects (Log f args # xs) = effects xs"
  by (simp add: effects_def)

lemma effects_Nil [simp]: "effects [] = []"
  by (simp add: effects_def)

text \<open>What the three calls and the printer leave in the trace.\<close>

lemma claimJob_trace: "fst (snd (claimJob env a j w)) = [claim_post a j]"
  by (simp add: claimJob_def claim_post_def Let_def
      split: prod.splits http_reply.splits sum.splits)

lemma completeJob_trace:
  "\<exists>l. fst (completeJob env a j w) = complete_post a j # l \<and> list_all is_log l"
  by (simp add: completeJob_def complete_post_def Let_def split: prod.splits http_reply.splits)

lemma failJob_trace:
  "\<exists>l. fst (failJob env a j e w) = fail_post a j e # l \<and> list_all is_log l"
  by (simp add: failJob_def fail_post_def Let_def split: prod.splits http_reply.splits)

lemma PrintTicket_trace:
  "fst (snd (PrintTicket env p d tmpl w)) =
     (if Enabled p
      then [SendToPrinter (or_default (PrinterName_p p) ''ECO80'') (ticket_bytes d tmpl)]
      else [])"
  by (simp add: PrintTicket_def sendToPrinter_def Let_def
      split: prod.splits os_print_result.splits)

lemma processJob_unfold:
  assumes "claimJob env a jobID w = (Inr claimed, t1, w1)"
  shows "processJob env a jobID w =
     (let t2 = [Log ''Claimed job #%d: %s'' [ArgInt (sint jobID), ArgStr (QueueNumber claimed)]] in
      case unmarshal_template env (TemplateJSON claimed) of
        Inl err \<Rightarrow>
          (let t3 = [Log ''Failed to parse template for job #%d: %v''
                       [ArgInt (sint jobID), ArgStr err]];
               (t4, w4) = failJob env a jobID (''failed to parse template: '' @ err) w1
           in ([claim_post a jobID] @ t2 @ t3 @ t4, w4))
      | Inr tmpl \<Rightarrow>
          (case PrintTicket env (printer a) (ticket_data claimed) tmpl w1 of
             (Some err, t3, w3) \<Rightarrow>
               (let t4 = [Log ''Print failed for job #%d: %v'' [ArgInt (sint jobID), ArgStr err]];
                    (t5, w5) = failJob env a jobID err w3
                in ([claim_post a jobID] @ t2 @ t3 @ t4 @ t5, w5))
           | (None, t3, w3) \<Rightarrow>
               (let (t4, w4) = completeJob env a jobID w3
                in ([claim_post a jobID] @ t2 @ t3 @ t4
                    @ [Log ''Job #%d printed successfully: %s''
                         [ArgInt (sint jobID), ArgStr (QueueNumber claimed)]], w4))))"
proof -
  have "t1 = [claim_post a jobID]"
    using claimJob_trace [of env a jobID w] assms by simp
  then show ?thesis
    using assms unfolding processJob_def ticket_data_def by simp
qed

section \<open>Processing one job\<close>

text \<open>
  C9.  On every path of \<^verbatim>\<open>processJob\<close> on which the claim succeeded, the trace holds
  exactly one terminal report: the fail request with the parse error as reason when the
  template does not parse, the fail request with the print error as reason when printing
  fails, and the complete request when the template parsed and the ticket was printed.
  It never holds both reports and never none.
\<close>

theorem processJob_exactly_one_report:
  assumes "claimJob env a jobID w = (Inr claimed, t1, w1)"
  shows "filter is_report (fst (processJob env a jobID w)) =
     (case unmarshal_template env (TemplateJSON claimed) of
        Inl err \<Rightarrow> [fail_post a jobID (''failed to parse template: '' @ err)]
      | Inr tmpl \<Rightarrow>
          (case fst (PrintTicket env (printer a) (ticket_data claimed) tmpl w1) of
             Some err \<Rightarrow> [fail_post a jobID err]
           | None \<Rightarrow> [complete_post a jobID]))"
proof (cases "unmarshal_template env (TemplateJSON claimed)")
  case (Inl err)
  obtain l where
    "fst (failJob env a jobID (''failed to parse template: '' @ err) w1)
       = fail_post a jobID (''failed to parse template: '' @ err) # l"
    and "list_all is_log l"
    using failJob_trace [of env a jobID "''failed to parse template: '' @ err" w1] by auto
  then show ?thesis
    using Inl by (simp add: processJob_unfold [OF assms] filter_report_logs case_prod_beta)
next
  case (Inr tmpl)
  obtain r t3 w3 where
    pt: "PrintTicket env (printer a) (ticket_data claimed) tmpl w1 = (r, t3, w3)"
    by (cases "PrintTicket env (printer a) (ticket_data claimed) tmpl w1") auto
  have t3: "filter is_report t3 = []"
    using PrintTicket_trace [of env "printer a" "ticket_data claimed" tmpl w1] pt by simp
  show ?thesis
  proof (cases r)
    case None
    obtain l where "fst (completeJob env a jobID w3) = complete_post a jobID # l"
      and "list_all is_log l"
      using completeJob_trace [of env a jobID w3] by auto
    then show ?thesis
      using Inr pt None t3
      by (simp add: processJob_unfold [OF assms] filter_report_logs case_prod_beta)
  next
    case (Some err)
    obtain l where "fst (failJob env a jobID err w3) = fail_post a jobID err # l"
      and "list_all is_log l"
      using failJob_trace [of env a jobID err w3] by auto
    then show ?thesis
      using Inr pt Some t3
      by (simp add: processJob_unfold [OF assms] filter_report_logs case_prod_beta)
  qed
qed

theorem processJob_exactly_one_report_witness:
  "claimJob (sample_env False Printed) sample_agent 42 []
     = (Inr (sample_job 42), [claim_post sample_agent 42], [])
   \<and> filter is_report (fst (processJob (sample_env False Printed) sample_agent 42 []))
     = [complete_post sample_agent 42]
   \<and> claimJob (sample_env False (CommandFailed ''exit status 1'' ''offline'')) sample_agent 42 []
     = (Inr (sample_job 42), [claim_post sample_agent 42], [])
   \<and> filter is_report
       (fst (processJob (sample_env False (CommandFailed ''exit status 1'' ''offline''))
               sample_agent 42 []))
     = [fail_post sample_agent 42 ''print failed: exit status 1, output: offline'']"
proof -
  have c1: "claimJob (sample_env False Printed) sample_agent 42 []
     = (Inr (sample_job 42), [claim_post sample_agent 42], [])"
    by code_simp
  have c2: "claimJob (sample_env False (CommandFailed ''exit status 1'' ''offline'')) sample_agent 42 []
     = (Inr (sample_job 42), [claim_post sample_agent 42], [])"
    by code_simp
  have r1: "(case unmarshal_template (sample_env False Printed) (TemplateJSON (sample_job 42)) of
        Inl err \<Rightarrow> [fail_post sample_agent 42 (''failed to parse template: '' @ err)]
      | Inr tmpl \<Rightarrow>
          (case fst (PrintTicket (sample_env False Printed) (printer sample_agent) (ticket_data (sample_job 42)) tmpl []) of
             Some err \<Rightarrow> [fail_post sample_agent 42 err]
           | None \<Rightarrow> [complete_post sample_agent 42])) = [complete_post sample_agent 42]"
    by code_simp
  have r2: "(case unmarshal_template (sample_env False (CommandFailed ''exit status 1'' ''offline'')) (TemplateJSON (sample_job 42)) of
        Inl err \<Rightarrow> [fail_post sample_agent 42 (''failed to parse template: '' @ err)]
      | Inr tmpl \<Rightarrow>
          (case fst (PrintTicket (sample_env False (CommandFailed ''exit status 1'' ''offline'')) (printer sample_agent) (ticket_data (sample_job 42)) tmpl []) of
             Some err \<Rightarrow> [fail_post sample_agent 42 err]
           | None \<Rightarrow> [complete_post sample_agent 42])) = [fail_post sample_agent 42 ''print failed: exit status 1, output: offline'']"
    by code_simp
  show ?thesis
    using c1 c2 processJob_exactly_one_report [OF c1] processJob_exactly_one_report [OF c2] r1 r2
    by simp
qed

lemma effects_print_call [simp]: "effects (print_call a claimed tmpl) = print_call a claimed tmpl"
  by (simp add: print_call_def effects_def)

lemma effects_Cons: "effects (x # l) = (if is_log x then effects l else x # effects l)"
  by (simp add: effects_def)

text \<open>
  C2.  The calls of \<^verbatim>\<open>processJob\<close>, log lines apart, are in this order: the claim
  request first; nothing more when the claim fails; after a successful claim, the fail
  request with the reason \<^verbatim>\<open>failed to parse template: ...\<close> when the template of the
  claimed job does not parse; otherwise the ticket built from the job's data and the parsed
  template is sent to the printer, followed by the fail request with the printer's error
  as reason when printing failed and by the complete request when it succeeded.  Every
  call occurs once: no claim, print or report is repeated.
\<close>

theorem processJob_claim_parse_print_report:
  "effects (fst (processJob env a jobID w)) =
     (case claimJob env a jobID w of
        (Inl err, t1, w1) \<Rightarrow> [claim_post a jobID]
      | (Inr claimed, t1, w1) \<Rightarrow>
          (case unmarshal_template env (TemplateJSON claimed) of
             Inl err \<Rightarrow>
               [claim_post a jobID, fail_post a jobID (''failed to parse template: '' @ err)]
           | Inr tmpl \<Rightarrow>
               (case fst (PrintTicket env (printer a) (ticket_data claimed) tmpl w1) of
                  Some err \<Rightarrow>
                    [claim_post a jobID] @ print_call a claimed tmpl @ [fail_post a jobID err]
                | None \<Rightarrow>
                    [claim_post a jobID] @ print_call a claimed tmpl @ [complete_post a jobID])))"
proof -
  obtain r t1 w1 where cl: "claimJob env a jobID w = (r, t1, w1)"
    by (cases "claimJob env a jobID w") auto
  have t1: "t1 = [claim_post a jobID]"
    using claimJob_trace [of env a jobID w] cl by simp
  show ?thesis
  proof (cases r)
    case (Inl err)
    then show ?thesis
      using cl t1 by (simp add: processJob_def effects_def)
  next
    case (Inr claimed)
    note claimed = cl [unfolded Inr]
    show ?thesis
    proof (cases "unmarshal_template env (TemplateJSON claimed)")
      case (Inl err)
      obtain l where
        "fst (failJob env a jobID (''failed to parse template: '' @ err) w1)
           = fail_post a jobID (''failed to parse template: '' @ err) # l"
        and "list_all is_log l"
        using failJob_trace [of env a jobID "''failed to parse template: '' @ err" w1] by auto
      then show ?thesis
        using Inl claimed
        by (simp add: processJob_unfold [OF claimed] effects_Cons effects_logs case_prod_beta)
    next
      case (Inr tmpl)
      obtain p t3 w3 where
        pt: "PrintTicket env (printer a) (ticket_data claimed) tmpl w1 = (p, t3, w3)"
        by (cases "PrintTicket env (printer a) (ticket_data claimed) tmpl w1") auto
      have t3: "t3 = print_call a claimed tmpl"
        using PrintTicket_trace [of env "printer a" "ticket_data claimed" tmpl w1] pt
        by (simp add: print_call_def)
      show ?thesis
      proof (cases p)
        case None
        obtain l where "fst (completeJob env a jobID w3) = complete_post a jobID # l"
          and "list_all is_log l"
          using completeJob_trace [of env a jobID w3] by auto
        then show ?thesis
          using Inr pt None t3 claimed
          by (simp add: processJob_unfold [OF claimed] effects_Cons effects_logs case_prod_beta)
      next
        case (Some err)
        obtain l where "fst (failJob env a jobID err w3) = fail_post a jobID err # l"
          and "list_all is_log l"
          using failJob_trace [of env a jobID err w3] by auto
        then show ?thesis
          using Inr pt Some t3 claimed
          by (simp add: processJob_unfold [OF claimed] effects_Cons effects_logs case_prod_beta)
      qed
    qed
  qed
qed

theorem processJob_claim_parse_print_report_witness:
  "effects (fst (processJob (sample_env False Printed) sample_agent 42 []))
     = [claim_post sample_agent 42,
        SendToPrinter ''ECO80''
          (ticket_bytes (ticket_data (sample_job 42)) sample_template),
        complete_post sample_agent 42]
   \<and> effects (fst (processJob (sample_env False Printed) sample_agent 44 []))
     = [claim_post sample_agent 44,
        fail_post sample_agent 44 ''failed to parse template: unexpected end of JSON input'']
   \<and> effects (fst (processJob (sample_env False Printed) sample_agent 43 []))
     = [claim_post sample_agent 43]"
proof -
  have r42: "(case claimJob (sample_env False Printed) sample_agent 42 [] of
        (Inl err, t1, w1) \<Rightarrow> [claim_post sample_agent 42]
      | (Inr claimed, t1, w1) \<Rightarrow>
          (case unmarshal_template (sample_env False Printed) (TemplateJSON claimed) of
             Inl err \<Rightarrow>
               [claim_post sample_agent 42,
                fail_post sample_agent 42 (''failed to parse template: '' @ err)]
           | Inr tmpl \<Rightarrow>
               (case fst (PrintTicket (sample_env False Printed) (printer sample_agent)
                            (ticket_data claimed) tmpl w1) of
                  Some err \<Rightarrow>
                    [claim_post sample_agent 42] @ print_call sample_agent claimed tmpl
                    @ [fail_post sample_agent 42 err]
                | None \<Rightarrow>
                    [claim_post sample_agent 42] @ print_call sample_agent claimed tmpl
                    @ [complete_post sample_agent 42])))
     = [claim_post sample_agent 42,
        SendToPrinter ''ECO80'' (ticket_bytes (ticket_data (sample_job 42)) sample_template),
        complete_post sample_agent 42]"
    by code_simp
  have r44: "(case claimJob (sample_env False Printed) sample_agent 44 [] of
        (Inl err, t1, w1) \<Rightarrow> [claim_post sample_agent 44]
      | (Inr claimed, t1, w1) \<Rightarrow>
          (case unmarshal_template (sample_env False Printed) (TemplateJSON claimed) of
             Inl err \<Rightarrow>
               [claim_post sample_agent 44,
                fail_post sample_agent 44 (''failed to parse template: '' @ err)]
           | Inr tmpl \<Rightarrow>
               (case fst (PrintTicket (sample_env False Printed) (printer sample_agent)
                            (ticket_data claimed) tmpl w1) of
                  Some err \<Rightarrow>
                    [claim_post sample_agent 44] @ print_call sample_agent claimed tmpl
                    @ [fail_post sample_agent 44 err]
                | None \<Rightarrow>
                    [claim_post sample_agent 44] @ print_call sample_agent claimed tmpl
                    @ [complete_post sample_agent 44])))
     = [claim_post sample_agent 44,
        fail_post sample_agent 44 ''failed to parse template: unexpected end of JSON input'']"
    by code_simp
  have r43: "(case claimJob (sample_env False Printed) sample_agent 43 [] of
        (Inl err, t1, w1) \<Rightarrow> [claim_post sample_agent 43]
      | (Inr claimed, t1, w1) \<Rightarrow>
          (case unmarshal_template (sample_env False Printed) (TemplateJSON claimed) of
             Inl err \<Rightarrow>
               [claim_post sample_agent 43,
                fail_post sample_agent 43 (''failed to parse template: '' @ err)]
           | Inr tmpl \<Rightarrow>
               (case fst (PrintTicket (sample_env False Printed) (printer sample_agent)
                            (ticket_data claimed) tmpl w1) of
                  Some err \<Rightarrow>
                    [claim_post sample_agent 43] @ print_call sample_agent claimed tmpl
                    @ [fail_post sample_agent 43 err]
                | None \<Rightarrow>
                    [claim_post sample_agent 43] @ print_call sample_agent claimed tmpl
                    @ [complete_post sample_agent 43])))
     = [claim_post sample_agent 43]"
    by code_simp
  show ?thesis
    using processJob_claim_parse_print_report [of "sample_env False Printed" sample_agent 42 "[]"]
      processJob_claim_parse_print_report [of "sample_env False Printed" sample_agent 44 "[]"]
      processJob_claim_parse_print_report [of "sample_env False Printed" sample_agent 43 "[]"]
    unfolding r42 r44 r43 by simp
qed

section \<open>Messages of the event stream\<close>

text \<open>
  C10.  A message that decodes and whose type is not \<^verbatim>\<open>print_job\<close> leaves no trace
  at all: no log line, no goroutine, no request.
\<close>

theorem handleSSEMessage_other_type:
  assumes "unmarshal_event env data = Inr event" and "Type event \<noteq> ''print_job''"
  shows "handleSSEMessage env a data = []"
  using assms by (simp add: handleSSEMessage_def)

theorem handleSSEMessage_other_type_witness:
  "unmarshal_event (sample_env False Printed) ''queue_called''
     = Inr \<lparr>Type = ''queue_called'', Data = ''A001''\<rparr>
   \<and> Type \<lparr>Type = ''queue_called'', Data = ''A001''\<rparr> \<noteq> ''print_job''
   \<and> handleSSEMessage (sample_env False Printed) sample_agent ''queue_called'' = []"
proof -
  have e: "unmarshal_event (sample_env False Printed) ''queue_called''
     = Inr \<lparr>Type = ''queue_called'', Data = ''A001''\<rparr>"
    by (simp add: sample_env_def)
  have t: "Type \<lparr>Type = ''queue_called'', Data = ''A001''\<rparr> \<noteq> ''print_job''"
    by simp
  show ?thesis
    using e t handleSSEMessage_other_type [OF e t, of sample_agent] by simp
qed

lemma handleSSEMessage_no_call: "list_all (\<lambda>x. \<not> is_call x) (handleSSEMessage env a data)"
  by (simp add: handleSSEMessage_def split: sum.splits)

lemma prepend_simps [simp]:
  "fst (prepend t x) = fst x"
  "fst (snd (prepend t x)) = t @ fst (snd x)"
  "snd (snd (prepend t x)) = snd (snd x)"
  by (simp_all add: prepend_def case_prod_beta)

lemma sse_loop_no_call: "list_all (\<lambda>x. \<not> is_call x) (fst (snd (sse_loop k env a w)))"
proof (induction k arbitrary: w)
  case 0
  show ?case by simp
next
  case (Suc k)
  show ?case
    using Suc.IH
    by (simp add: handleSSEMessage_no_call
        split: prod.splits bool.splits scan_result.splits)
qed

lemma TrimPrefix_append: "TrimPrefix (p @ d) p = d"
  by (simp add: TrimPrefix_def HasPrefix_def)

lemma HasPrefix_append: "HasPrefix (p @ d) p"
  by (simp add: HasPrefix_def)

lemma HasPrefix_event:
  "HasPrefix line ''event: '' \<Longrightarrow> line \<noteq> [] \<and> \<not> HasPrefix line '':''"
  by (auto simp: HasPrefix_def prefix_def)

text \<open>
  The read loop is its turns one after the other, and \<^verbatim>\<open>processJob\<close> is its steps
  one after the other.
\<close>

lemma sse_loop_turn:
  "sse_loop (Suc n) env a w =
     (case sse_turn env a w of
        (Return err, t, w1) \<Rightarrow> (Returned err, t, w1)
      | (Continue, t, w1) \<Rightarrow> prepend t (sse_loop n env a w1))"
  by (simp add: sse_turn_def split: prod.splits bool.splits scan_result.splits)

lemma job_steps_processJob:
  "(case job_step env a (Start jobID) w of
      (s1, t1, w1) \<Rightarrow>
        (case job_step env a s1 w1 of
           (s2, t2, w2) \<Rightarrow>
             (case job_step env a s2 w2 of
                (s3, t3, w3) \<Rightarrow> (s3, t1 @ t2 @ t3, w3))))
   = (Finished, fst (processJob env a jobID w), snd (processJob env a jobID w))"
  by (simp add: processJob_def Let_def case_prod_beta
      split: prod.splits sum.splits option.splits)

lemma prepend_prepend: "prepend t1 (prepend t2 x) = prepend (t1 @ t2) x"
  by (simp add: prepend_def case_prod_beta)

lemma prepend_Nil: "prepend [] x = x"
  by (simp add: prepend_def case_prod_beta)

lemma goroutine_pick:
  "sse_sched (Goroutine (length pool) # rest) env a v (pool @ st # others) =
     (case job_step env a st v of
        (st', t, v1) \<Rightarrow> prepend t (sse_sched rest env a v1 (pool @ st' # others)))"
  by (simp add: nth_append list_update_append)

lemma goroutine_runs_processJob:
  "sse_sched (Goroutine (length pool) # Goroutine (length pool) # Goroutine (length pool) # rest)
       env a v (pool @ Start jobID # others)
     = prepend (fst (processJob env a jobID v))
         (sse_sched rest env a (snd (processJob env a jobID v)) (pool @ Finished # others))"
proof -
  obtain s1 t1 v1 where j1: "job_step env a (Start jobID) v = (s1, t1, v1)"
    by (cases "job_step env a (Start jobID) v") auto
  obtain s2 t2 v2 where j2: "job_step env a s1 v1 = (s2, t2, v2)"
    by (cases "job_step env a s1 v1") auto
  obtain s3 t3 v3 where j3: "job_step env a s2 v2 = (s3, t3, v3)"
    by (cases "job_step env a s2 v2") auto
  obtain tp vp where pj: "processJob env a jobID v = (tp, vp)"
    by (cases "processJob env a jobID v") auto
  have p: "s3 = Finished" "t1 @ t2 @ t3 = tp" "v3 = vp"
    using job_steps_processJob [of env a jobID v] j1 j2 j3 pj by simp_all
  have "sse_sched (Goroutine (length pool) # Goroutine (length pool) # Goroutine (length pool) # rest)
          env a v (pool @ Start jobID # others)
        = prepend (t1 @ t2 @ t3) (sse_sched rest env a v3 (pool @ s3 # others))"
    by (simp only: goroutine_pick j1 j2 j3 prod.case prepend_prepend append_assoc)
  also have "\<dots> = prepend tp (sse_sched rest env a vp (pool @ Finished # others))"
    by (simp only: p)
  finally show ?thesis
    by (simp only: pj fst_conv snd_conv)
qed

lemma sse_sched_readers:
  "(case sse_sched (replicate n Reader) env a w pool of (r, t, w', pool') \<Rightarrow> (r, t, w'))
     = sse_loop n env a w"
proof (induction n arbitrary: w pool)
  case 0
  show ?case by simp
next
  case (Suc n)
  obtain r t w1 where tu: "sse_turn env a w = (r, t, w1)"
    by (cases "sse_turn env a w") auto
  show ?case
  proof (cases r)
    case (Return err)
    then show ?thesis
      using tu by (simp add: sse_loop_turn del: sse_loop.simps)
  next
    case Continue
    obtain r' t' w' pool' where
      s: "sse_sched (replicate n Reader) env a w1 (pool @ map Start (started t))
            = (r', t', w', pool')"
      by (cases "sse_sched (replicate n Reader) env a w1 (pool @ map Start (started t))") auto
    have "sse_loop n env a w1 = (r', t', w')"
      using Suc.IH [of w1 "pool @ map Start (started t)"] s by simp
    then show ?thesis
      using tu Continue s
      by (simp add: sse_loop_turn prepend_def del: sse_loop.simps)
  qed
qed

lemma sse_turn_no_call: "list_all (\<lambda>x. \<not> is_call x) (fst (snd (sse_turn env a w)))"
  by (simp add: sse_turn_def handleSSEMessage_no_call
      split: prod.splits bool.splits scan_result.splits)

lemma sse_turn_print_job:
  assumes "unmarshal_event env data = Inr event"
    and "Type event = ''print_job''"
    and "unmarshal_print_job_event env (Data event) = Inr pjEvent"
    and "stop_closed env w = (False, w1)"
    and "sse_scan env w1 = (Line line, w2)"
    and "HasPrefix line ''event: ''"
    and "sse_scan env w2 = (Line (''data: '' @ data), w3)"
  shows "sse_turn env a w =
           (Continue,
            [StopCheck InStream False, Scan, Scan,
             Log ''Received print job #%d for %s''
               [ArgInt (sint (JobID pjEvent)), ArgStr (QueueNumber_e pjEvent)],
             Go (JobID pjEvent)], w3)"
proof -
  have h: "handleSSEMessage env a data =
      [Log ''Received print job #%d for %s''
         [ArgInt (sint (JobID pjEvent)), ArgStr (QueueNumber_e pjEvent)],
       Go (JobID pjEvent)]"
    using assms(1-3) by (simp add: handleSSEMessage_def)
  have "sse_turn env a w =
          (Continue, [StopCheck InStream False, Scan, Scan] @ handleSSEMessage env a data, w3)"
    using assms(4-6) HasPrefix_event [OF assms(6)]
    by (simp add: sse_turn_def assms(7) HasPrefix_append TrimPrefix_append del: append.simps)
  then show ?thesis
    using h by simp
qed

lemma job_phases_effects:
  assumes j1: "job_step env a (Start jobID) v1 = (s1, t1, u1)"
    and j2: "job_step env a s1 v2 = (s2, t2, u2)"
    and j3: "job_step env a s2 v3 = (s3, t3, u3)"
  shows "s3 = Finished
     \<and> effects (t1 @ t2 @ t3) =
         (case claimJob env a jobID v1 of
            (Inl err, c, u) \<Rightarrow> [claim_post a jobID]
          | (Inr claimed, c, u) \<Rightarrow>
              (case unmarshal_template env (TemplateJSON claimed) of
                 Inl err \<Rightarrow>
                   [claim_post a jobID,
                    fail_post a jobID (''failed to parse template: '' @ err)]
               | Inr tmpl \<Rightarrow>
                   (case fst (PrintTicket env (printer a) (ticket_data claimed) tmpl v2) of
                      Some err \<Rightarrow>
                        [claim_post a jobID] @ print_call a claimed tmpl
                        @ [fail_post a jobID err]
                    | None \<Rightarrow>
                        [claim_post a jobID] @ print_call a claimed tmpl
                        @ [complete_post a jobID])))"
proof -
  obtain r c u where cl: "claimJob env a jobID v1 = (r, c, u)"
    by (cases "claimJob env a jobID v1") auto
  have c: "c = [claim_post a jobID]"
    using claimJob_trace [of env a jobID v1] cl by simp
  show ?thesis
  proof (cases r)
    case (Inl err)
    then have "s1 = Finished" "t1 = [claim_post a jobID,
        Log ''Failed to claim job #%d: %v (likely already claimed)''
          [ArgInt (sint jobID), ArgStr err]]"
      using j1 cl c by auto
    then show ?thesis
      using j2 j3 cl Inl by (auto simp: effects_Cons)
  next
    case (Inr claimed)
    show ?thesis
    proof (cases "unmarshal_template env (TemplateJSON claimed)")
      case (Inl err)
      have s1: "s1 = Reporting jobID claimed (Some (''failed to parse template: '' @ err))"
        and t1: "effects t1 = [claim_post a jobID]"
        using j1 cl c Inr Inl by (auto simp: effects_Cons)
      obtain l where
        "fst (failJob env a jobID (''failed to parse template: '' @ err) v2)
           = fail_post a jobID (''failed to parse template: '' @ err) # l"
        and "list_all is_log l"
        using failJob_trace [of env a jobID "''failed to parse template: '' @ err" v2] by auto
      then have "s2 = Finished"
        and "effects t2 = [fail_post a jobID (''failed to parse template: '' @ err)]"
        using j2 s1 by (auto simp: effects_Cons effects_logs case_prod_beta)
      then show ?thesis
        using j3 t1 cl Inr Inl by auto
    next
      case tm: (Inr tmpl)
      have s1: "s1 = Claimed_job jobID claimed tmpl" and t1: "effects t1 = [claim_post a jobID]"
        using j1 cl c Inr tm by (auto simp: effects_Cons)
      obtain p t3' w3' where
        pt: "PrintTicket env (printer a) (ticket_data claimed) tmpl v2 = (p, t3', w3')"
        by (cases "PrintTicket env (printer a) (ticket_data claimed) tmpl v2") auto
      have t3': "t3' = print_call a claimed tmpl"
        using PrintTicket_trace [of env "printer a" "ticket_data claimed" tmpl v2] pt
        by (simp add: print_call_def)
      have s2: "s2 = Reporting jobID claimed p" and t2: "effects t2 = print_call a claimed tmpl"
        using j2 s1 pt t3' unfolding ticket_data_def by (cases p; auto)+
      show ?thesis
      proof (cases p)
        case None
        obtain l where "fst (completeJob env a jobID v3) = complete_post a jobID # l"
          and "list_all is_log l"
          using completeJob_trace [of env a jobID v3] by auto
        then have "s3 = Finished" and "effects t3 = [complete_post a jobID]"
          using j3 s2 None by (auto simp: effects_Cons effects_logs case_prod_beta)
        then show ?thesis
          using t1 t2 cl Inr tm pt None by simp
      next
        case (Some err)
        obtain l where "fst (failJob env a jobID err v3) = fail_post a jobID err # l"
          and "list_all is_log l"
          using failJob_trace [of env a jobID err v3] by auto
        then have "s3 = Finished" and "effects t3 = [fail_post a jobID err]"
          using j3 s2 Some by (auto simp: effects_Cons effects_logs case_prod_beta)
        then show ?thesis
          using t1 t2 cl Inr tm pt Some by simp
      qed
    qed
  qed
qed

text \<open>
  C7.  When the reader meets the frame of a \<^verbatim>\<open>print_job\<close> event it logs the event,
  starts a goroutine for the job of the event and goes on with its next turn; the job is
  added, at its start, to the jobs that are running.  Whenever the goroutine is picked
  it runs the next step of \<^verbatim>\<open>processJob\<close>; picked three times in a row it runs the
  whole of \<^verbatim>\<open>processJob\<close> for that job; and whatever happens between its steps (the
  worlds \<open>v1\<close>, \<open>v2\<close> and \<open>v3\<close> in which they begin are arbitrary), after three
  steps it has finished and has made the claim request, then, the claim granted and the
  template parsed, the call of the printer, then the report.  Whatever the jobs are
  doing, a pick of the reader runs the next turn of the read loop, and a turn of the read
  loop makes no request and does not print: the reader does not wait for a job.  With no
  job picked, the reader is the read loop of \<^verbatim>\<open>subscribeSSE\<close>.
\<close>

theorem print_job_event_runs_concurrently:
  assumes "unmarshal_event env data = Inr event"
    and "Type event = ''print_job''"
    and "unmarshal_print_job_event env (Data event) = Inr pjEvent"
    and "stop_closed env w = (False, w1)"
    and "sse_scan env w1 = (Line line, w2)"
    and "HasPrefix line ''event: ''"
    and "sse_scan env w2 = (Line (''data: '' @ data), w3)"
  shows "sse_sched (Reader # sched) env a w pool
           = prepend [StopCheck InStream False, Scan, Scan,
                      Log ''Received print job #%d for %s''
                        [ArgInt (sint (JobID pjEvent)), ArgStr (QueueNumber_e pjEvent)],
                      Go (JobID pjEvent)]
               (sse_sched sched env a w3 (pool @ [Start (JobID pjEvent)]))
       \<and> sse_sched (Goroutine (length pool) # rest) env a v (pool @ st # others)
           = (case job_step env a st v of
                (st', t, v1) \<Rightarrow> prepend t (sse_sched rest env a v1 (pool @ st' # others)))
       \<and> sse_sched (Goroutine (length pool) # Goroutine (length pool) # Goroutine (length pool)
                     # rest) env a v (pool @ Start (JobID pjEvent) # others)
           = prepend (fst (processJob env a (JobID pjEvent) v))
               (sse_sched rest env a (snd (processJob env a (JobID pjEvent) v))
                  (pool @ Finished # others))
       \<and> (case job_step env a (Start (JobID pjEvent)) v1 of
            (s1, t1, u1) \<Rightarrow>
              (case job_step env a s1 v2 of
                 (s2, t2, u2) \<Rightarrow>
                   (case job_step env a s2 v3 of
                      (s3, t3, u3) \<Rightarrow>
                        s3 = Finished
                        \<and> effects (t1 @ t2 @ t3) =
                            (case claimJob env a (JobID pjEvent) v1 of
                               (Inl err, c, u) \<Rightarrow> [claim_post a (JobID pjEvent)]
                             | (Inr claimed, c, u) \<Rightarrow>
                                 (case unmarshal_template env (TemplateJSON claimed) of
                                    Inl err \<Rightarrow>
                                      [claim_post a (JobID pjEvent),
                                       fail_post a (JobID pjEvent)
                                         (''failed to parse template: '' @ err)]
                                  | Inr tmpl \<Rightarrow>
                                      (case fst (PrintTicket env (printer a)
                                                   (ticket_data claimed) tmpl v2) of
                                         Some err \<Rightarrow>
                                           [claim_post a (JobID pjEvent)]
                                           @ print_call a claimed tmpl
                                           @ [fail_post a (JobID pjEvent) err]
                                       | None \<Rightarrow>
                                           [claim_post a (JobID pjEvent)]
                                           @ print_call a claimed tmpl
                                           @ [complete_post a (JobID pjEvent)]))))))
       \<and> sse_sched (Reader # rest) env a v (pool @ st # others)
           = (case sse_turn env a v of
                (Return err, t, v1) \<Rightarrow>
                  (Returned err, t, v1, (pool @ st # others) @ map Start (started t))
              | (Continue, t, v1) \<Rightarrow>
                  prepend t (sse_sched rest env a v1 ((pool @ st # others) @ map Start (started t))))
       \<and> list_all (\<lambda>x. \<not> is_call x) (fst (snd (sse_turn env a v)))
       \<and> (case sse_sched (replicate n Reader) env a v pool of (r, t, v', pool') \<Rightarrow> (r, t, v'))
           = sse_loop n env a v"
proof (intro conjI)
  show "sse_sched (Reader # sched) env a w pool
           = prepend [StopCheck InStream False, Scan, Scan,
                      Log ''Received print job #%d for %s''
                        [ArgInt (sint (JobID pjEvent)), ArgStr (QueueNumber_e pjEvent)],
                      Go (JobID pjEvent)]
               (sse_sched sched env a w3 (pool @ [Start (JobID pjEvent)]))"
    by (simp add: sse_turn_print_job [OF assms])
next
  show "sse_sched (Goroutine (length pool) # rest) env a v (pool @ st # others)
           = (case job_step env a st v of
                (st', t, v1) \<Rightarrow> prepend t (sse_sched rest env a v1 (pool @ st' # others)))"
    by (rule goroutine_pick)
next
  show "sse_sched (Goroutine (length pool) # Goroutine (length pool) # Goroutine (length pool)
                     # rest) env a v (pool @ Start (JobID pjEvent) # others)
           = prepend (fst (processJob env a (JobID pjEvent) v))
               (sse_sched rest env a (snd (processJob env a (JobID pjEvent) v))
                  (pool @ Finished # others))"
    by (rule goroutine_runs_processJob)
next
  obtain s1 t1 u1 where j1: "job_step env a (Start (JobID pjEvent)) v1 = (s1, t1, u1)"
    by (cases "job_step env a (Start (JobID pjEvent)) v1") auto
  obtain s2 t2 u2 where j2: "job_step env a s1 v2 = (s2, t2, u2)"
    by (cases "job_step env a s1 v2") auto
  obtain s3 t3 u3 where j3: "job_step env a s2 v3 = (s3, t3, u3)"
    by (cases "job_step env a s2 v3") auto
  show "case job_step env a (Start (JobID pjEvent)) v1 of
            (s1, t1, u1) \<Rightarrow>
              (case job_step env a s1 v2 of
                 (s2, t2, u2) \<Rightarrow>
                   (case job_step env a s2 v3 of
                      (s3, t3, u3) \<Rightarrow>
                        s3 = Finished
                        \<and> effects (t1 @ t2 @ t3) =
                            (case claimJob env a (JobID pjEvent) v1 of
                               (Inl err, c, u) \<Rightarrow> [claim_post a (JobID pjEvent)]
                             | (Inr claimed, c, u) \<Rightarrow>
                                 (case unmarshal_template env (TemplateJSON claimed) of
                                    Inl err \<Rightarrow>
                                      [claim_post a (JobID pjEvent),
                                       fail_post a (JobID pjEvent)
                                         (''failed to parse template: '' @ err)]
                                  | Inr tmpl \<Rightarrow>
                                      (case fst (PrintTicket env (printer a)
                                                   (ticket_data claimed) tmpl v2) of
                                         Some err \<Rightarrow>
                                           [claim_post a (JobID pjEvent)]
                                           @ print_call a claimed tmpl
                                           @ [fail_post a (JobID pjEvent) err]
                                       | None \<Rightarrow>
                                           [claim_post a (JobID pjEvent)]
                                           @ print_call a claimed tmpl
                                           @ [complete_post a (JobID pjEvent)])))))"
    using job_phases_effects [OF j1 j2 j3]
    by (simp only: j1 j2 j3 prod.case)
next
  show "sse_sched (Reader # rest) env a v (pool @ st # others)
           = (case sse_turn env a v of
                (Return err, t, v1) \<Rightarrow>
                  (Returned err, t, v1, (pool @ st # others) @ map Start (started t))
              | (Continue, t, v1) \<Rightarrow>
                  prepend t (sse_sched rest env a v1 ((pool @ st # others) @ map Start (started t))))"
    by simp
next
  show "list_all (\<lambda>x. \<not> is_call x) (fst (snd (sse_turn env a v)))"
    by (rule sse_turn_no_call)
next
  show "(case sse_sched (replicate n Reader) env a v pool of (r, t, v', pool') \<Rightarrow> (r, t, v'))
           = sse_loop n env a v"
    by (rule sse_sched_readers)
qed

theorem print_job_event_runs_concurrently_witness:
  "unmarshal_event (sample_env False Printed) ''print_job 42''
     = Inr \<lparr>Type = ''print_job'', Data = ''42''\<rparr>
   \<and> sse_sched [Reader, Goroutine 0, Goroutine 0, Goroutine 0, Reader]
        (sample_env False Printed) sample_agent
        [Line ''event: message'', Line ''data: print_job 42'', Line '': heartbeat''] []
     = prepend [StopCheck InStream False, Scan, Scan,
                Log ''Received print job #%d for %s'' [ArgInt 42, ArgStr ''A001''], Go 42]
         (prepend (fst (processJob (sample_env False Printed) sample_agent 42
                          [Line '': heartbeat'']))
            (sse_sched [Reader] (sample_env False Printed) sample_agent
               (snd (processJob (sample_env False Printed) sample_agent 42
                       [Line '': heartbeat''])) [Finished]))
   \<and> fst (snd (sse_sched [Reader, Goroutine 0, Reader, Goroutine 0, Reader, Goroutine 0]
                  (sample_env False Printed) sample_agent
                  [Line ''event: message'', Line ''data: print_job 42'', Line '': heartbeat'',
                   Line ''event: message'', Line ''data: queue_called''] []))
     = [StopCheck InStream False, Scan, Scan,
        Log ''Received print job #%d for %s'' [ArgInt 42, ArgStr ''A001''], Go 42,
        claim_post sample_agent 42,
        Log ''Claimed job #%d: %s'' [ArgInt 42, ArgStr ''A001''],
        StopCheck InStream False, Scan,
        SendToPrinter ''ECO80'' (ticket_bytes (ticket_data (sample_job 42)) sample_template),
        StopCheck InStream False, Scan, Scan,
        complete_post sample_agent 42,
        Log ''Job #%d printed successfully: %s'' [ArgInt 42, ArgStr ''A001'']]"
proof -
  have e: "unmarshal_event (sample_env False Printed) ''print_job 42''
     = Inr \<lparr>Type = ''print_job'', Data = ''42''\<rparr>"
    by (simp add: sample_env_def)
  have t: "Type \<lparr>Type = ''print_job'', Data = ''42''\<rparr> = ''print_job''"
    by simp
  have p: "unmarshal_print_job_event (sample_env False Printed)
             (Data \<lparr>Type = ''print_job'', Data = ''42''\<rparr>)
           = Inr \<lparr>JobID = 42, QueueNumber_e = ''A001''\<rparr>"
    by (simp add: sample_env_def)
  have s: "stop_closed (sample_env False Printed)
             [Line ''event: message'', Line ''data: print_job 42'', Line '': heartbeat'']
           = (False, [Line ''event: message'', Line ''data: print_job 42'', Line '': heartbeat''])"
    by (simp add: sample_env_def)
  have l1: "sse_scan (sample_env False Printed)
              [Line ''event: message'', Line ''data: print_job 42'', Line '': heartbeat'']
            = (Line ''event: message'', [Line ''data: print_job 42'', Line '': heartbeat''])"
    by (simp add: sample_env_def)
  have pre: "HasPrefix ''event: message'' ''event: ''"
    by (simp add: HasPrefix_def)
  have l2: "sse_scan (sample_env False Printed)
              [Line ''data: print_job 42'', Line '': heartbeat'']
            = (Line (''data: '' @ ''print_job 42''), [Line '': heartbeat''])"
    by (simp add: sample_env_def)
  note th = print_job_event_runs_concurrently
    [where sched = "[Goroutine 0, Goroutine 0, Goroutine 0, Reader]" and rest = "[Reader]"
       and a = sample_agent and pool = "[]" and others = "[]" and v = "[Line '': heartbeat'']",
     OF e t p s l1 pre l2]
  define after where
    "after = sse_sched [Reader] (sample_env False Printed) sample_agent
               (snd (processJob (sample_env False Printed) sample_agent 42
                       [Line '': heartbeat''])) [Finished]"
  define job where
    "job = sse_sched [Goroutine 0, Goroutine 0, Goroutine 0, Reader]
             (sample_env False Printed) sample_agent [Line '': heartbeat''] [Start 42]"
  have a: "sse_sched [Reader, Goroutine 0, Goroutine 0, Goroutine 0, Reader]
        (sample_env False Printed) sample_agent
        [Line ''event: message'', Line ''data: print_job 42'', Line '': heartbeat''] []
     = prepend [StopCheck InStream False, Scan, Scan,
                Log ''Received print job #%d for %s'' [ArgInt 42, ArgStr ''A001''], Go 42] job"
    using th [THEN conjunct1]
    unfolding job_def by (simp del: sse_sched.simps)
  have b: "job = prepend (fst (processJob (sample_env False Printed) sample_agent 42
                          [Line '': heartbeat''])) after"
    using th [THEN conjunct2, THEN conjunct2, THEN conjunct1]
    unfolding job_def after_def by (simp del: sse_sched.simps)
  have c: "fst (snd (sse_sched [Reader, Goroutine 0, Reader, Goroutine 0, Reader, Goroutine 0]
                  (sample_env False Printed) sample_agent
                  [Line ''event: message'', Line ''data: print_job 42'', Line '': heartbeat'',
                   Line ''event: message'', Line ''data: queue_called''] []))
     = [StopCheck InStream False, Scan, Scan,
        Log ''Received print job #%d for %s'' [ArgInt 42, ArgStr ''A001''], Go 42,
        claim_post sample_agent 42,
        Log ''Claimed job #%d: %s'' [ArgInt 42, ArgStr ''A001''],
        StopCheck InStream False, Scan,
        SendToPrinter ''ECO80'' (ticket_bytes (ticket_data (sample_job 42)) sample_template),
        StopCheck InStream False, Scan, Scan,
        complete_post sample_agent 42,
        Log ''Job #%d printed successfully: %s'' [ArgInt 42, ArgStr ''A001'']]"
    by code_simp
  show ?thesis
    using e a [unfolded b after_def] c by (intro conjI)
qed

text \<open>
  C5.  In the read loop, with the stop channel open: an empty line and a line that
  begins with a colon are skipped, and the loop goes on with the next line; an
  \<^verbatim>\<open>event: \<close> line followed by a \<^verbatim>\<open>data: \<close> line is one call of
  \<^verbatim>\<open>handleSSEMessage\<close>, on the rest of the data line; an \<^verbatim>\<open>event: \<close> line
  followed by a line that is not a \<^verbatim>\<open>data: \<close> line is no call, and both lines are
  used up; an \<^verbatim>\<open>event: \<close> line after which the stream gives no line is no call
  either, and the subscription ends; and the message of a \<^verbatim>\<open>print_job\<close> event
  carries the fields \<^verbatim>\<open>job_id\<close> and \<^verbatim>\<open>queue_number\<close>, which are logged, the
  first one naming the job to process.
\<close>

theorem sse_loop_lines_and_frames:
  assumes "stop_closed env w = (False, w1)"
    and "sse_scan env w1 = (Line line, w2)"
  shows "(line = [] \<or> HasPrefix line '':'' \<longrightarrow>
            sse_loop (Suc n) env a w
              = prepend [StopCheck InStream False, Scan] (sse_loop n env a w2))
       \<and> (HasPrefix line ''event: '' \<longrightarrow>
            (\<forall>data w3. sse_scan env w2 = (Line (''data: '' @ data), w3) \<longrightarrow>
               sse_loop (Suc n) env a w
                 = prepend ([StopCheck InStream False, Scan, Scan] @ handleSSEMessage env a data)
                     (sse_loop n env a w3)))
       \<and> (HasPrefix line ''event: '' \<longrightarrow>
            (\<forall>other w3. sse_scan env w2 = (Line other, w3) \<longrightarrow> \<not> HasPrefix other ''data: '' \<longrightarrow>
               sse_loop (Suc n) env a w
                 = prepend [StopCheck InStream False, Scan, Scan] (sse_loop n env a w3)))
       \<and> (HasPrefix line ''event: '' \<longrightarrow>
            (\<forall>s w3. sse_scan env w2 = (s, w3) \<longrightarrow> (\<forall>other. s \<noteq> Line other) \<longrightarrow>
               sse_loop (Suc n) env a w
                 = (Returned (Some ''SSE stream ended''),
                    [StopCheck InStream False, Scan, Scan], w3)))
       \<and> (\<forall>data event pjEvent.
             unmarshal_event env data = Inr event \<longrightarrow> Type event = ''print_job'' \<longrightarrow>
             unmarshal_print_job_event env (Data event) = Inr pjEvent \<longrightarrow>
               handleSSEMessage env a data
                 = [Log ''Received print job #%d for %s''
                      [ArgInt (sint (JobID pjEvent)), ArgStr (QueueNumber_e pjEvent)],
                    Go (JobID pjEvent)])"
proof (intro conjI impI allI)
  assume "line = [] \<or> HasPrefix line '':''"
  then show "sse_loop (Suc n) env a w
      = prepend [StopCheck InStream False, Scan] (sse_loop n env a w2)"
    using assms by auto
next
  fix data w3
  assume ev: "HasPrefix line ''event: ''"
    and d: "sse_scan env w2 = (Line (''data: '' @ data), w3)"
  show "sse_loop (Suc n) env a w
      = prepend ([StopCheck InStream False, Scan, Scan] @ handleSSEMessage env a data)
          (sse_loop n env a w3)"
    using assms ev HasPrefix_event [OF ev]
    by (simp add: d HasPrefix_append TrimPrefix_append del: append.simps)
next
  fix other w3
  assume ev: "HasPrefix line ''event: ''"
    and d: "sse_scan env w2 = (Line other, w3)" and nd: "\<not> HasPrefix other ''data: ''"
  show "sse_loop (Suc n) env a w
      = prepend [StopCheck InStream False, Scan, Scan] (sse_loop n env a w3)"
    using assms ev d nd HasPrefix_event [OF ev] by simp
next
  fix s w3
  assume ev: "HasPrefix line ''event: ''"
    and d: "sse_scan env w2 = (s, w3)" and nl: "\<forall>other. s \<noteq> Line other"
  show "sse_loop (Suc n) env a w
      = (Returned (Some ''SSE stream ended''), [StopCheck InStream False, Scan, Scan], w3)"
    using assms ev d nl HasPrefix_event [OF ev] by (cases s) simp_all
next
  fix data event pjEvent
  assume "unmarshal_event env data = Inr event" and "Type event = ''print_job''"
    and "unmarshal_print_job_event env (Data event) = Inr pjEvent"
  then show "handleSSEMessage env a data
      = [Log ''Received print job #%d for %s''
           [ArgInt (sint (JobID pjEvent)), ArgStr (QueueNumber_e pjEvent)],
         Go (JobID pjEvent)]"
    by (simp add: handleSSEMessage_def)
qed

theorem sse_loop_lines_and_frames_witness:
  "sse_loop (Suc 1) (sample_env False Printed) sample_agent [Line '': heartbeat'']
     = prepend [StopCheck InStream False, Scan]
         (sse_loop 1 (sample_env False Printed) sample_agent [])
   \<and> sse_loop (Suc 1) (sample_env False Printed) sample_agent
        [Line ''event: message'', Line ''data: print_job 42'']
     = prepend [StopCheck InStream False, Scan, Scan,
                Log ''Received print job #%d for %s'' [ArgInt 42, ArgStr ''A001''], Go 42]
         (sse_loop 1 (sample_env False Printed) sample_agent [])
   \<and> sse_loop (Suc 1) (sample_env False Printed) sample_agent
        [Line ''event: message'', Line ''id: 7'']
     = prepend [StopCheck InStream False, Scan, Scan]
         (sse_loop 1 (sample_env False Printed) sample_agent [])"
proof -
  have s: "stop_closed (sample_env False Printed) w = (False, w)" for w
    by (simp add: sample_env_def)
  have l: "sse_scan (sample_env False Printed) (Line x # xs) = (Line x, xs)" for x xs
    by (simp add: sample_env_def)
  show ?thesis
    using sse_loop_lines_and_frames [OF s l, of "'': heartbeat''" 1 sample_agent "[]"]
      sse_loop_lines_and_frames [OF s l, of "''event: message''" 1 sample_agent
        "[Line ''data: print_job 42'']"]
      sse_loop_lines_and_frames [OF s l, of "''event: message''" 1 sample_agent
        "[Line ''id: 7'']"]
    by (simp add: sample_env_def prepend_def HasPrefix_def TrimPrefix_def handleSSEMessage_def)
qed

section \<open>Catch-up\<close>



lemma posts_no_stop_check [simp]:
  "\<not> is_stop_check (claim_post a j)" "\<not> is_stop_check (complete_post a j)"
  "\<not> is_stop_check (fail_post a j e)"
  by (simp_all add: claim_post_def complete_post_def fail_post_def)








section \<open>The reconnect loop\<close>

lemma handleSSEMessage_reads_on: "list_all reads_on (handleSSEMessage env a data)"
  by (simp add: handleSSEMessage_def split: sum.splits)

lemma sse_loop_outcome:
  "sse_loop k env a w = (r, t, w') \<Longrightarrow>
     (case r of
        OutOfFuel \<Rightarrow> list_all reads_on t
      | Returned None \<Rightarrow> (\<exists>pre. t = pre @ [StopCheck InStream True] \<and> list_all reads_on pre)
      | Returned (Some e) \<Rightarrow>
          list_all reads_on t
          \<and> (e = ''SSE stream ended'' \<or> (\<exists>x. e = ''SSE read error: '' @ x)))"
proof (induction k arbitrary: w r t w')
  case 0
  then show ?case by auto
next
  case (Suc k)
  obtain b w1 where sc: "stop_closed env w = (b, w1)"
    by (cases "stop_closed env w") auto
  show ?case
  proof (cases b)
    case True
    then show ?thesis using Suc.prems sc by auto
  next
    case False
    obtain s w2 where s1: "sse_scan env w1 = (s, w2)"
      by (cases "sse_scan env w1") auto
    show ?thesis
    proof (cases s)
      case EndOfStream
      then show ?thesis using Suc.prems sc False s1 by auto
    next
      case (ReadError err)
      then show ?thesis using Suc.prems sc False s1 by auto
    next
      case (Line line)
      have step: "\<exists>pre w3 t3. list_all reads_on pre \<and> t = pre @ t3
                    \<and> (sse_loop k env a w3 = (r, t3, w')
                        \<or> (r = Returned (Some ''SSE stream ended'') \<and> t3 = []))"
      proof (cases "line = [] \<or> HasPrefix line '':''")
        case True
        obtain r3 t3 w3 where l: "sse_loop k env a w2 = (r3, t3, w3)"
          by (cases "sse_loop k env a w2") auto
        have "t = [StopCheck InStream False, Scan] @ t3 \<and> r = r3 \<and> w' = w3"
          using Suc.prems sc False s1 Line True l by (auto simp: prepend_def)
        then show ?thesis
          using l by (intro exI [of _ "[StopCheck InStream False, Scan]"] exI [of _ w2] exI [of _ t3]) simp
      next
        case nc: False
        show ?thesis
        proof (cases "HasPrefix line ''event: ''")
          case False
          obtain r3 t3 w3 where l: "sse_loop k env a w2 = (r3, t3, w3)"
            by (cases "sse_loop k env a w2") auto
          have "t = [StopCheck InStream False, Scan] @ t3 \<and> r = r3 \<and> w' = w3"
            using Suc.prems sc \<open>\<not> b\<close> s1 Line nc False l by (auto simp: prepend_def)
          then show ?thesis
            using l by (intro exI [of _ "[StopCheck InStream False, Scan]"] exI [of _ w2] exI [of _ t3]) simp
        next
          case True
          obtain s' w3 where s2: "sse_scan env w2 = (s', w3)"
            by (cases "sse_scan env w2") auto
          show ?thesis
          proof (cases s')
            case EndOfStream
            then have "t = [StopCheck InStream False, Scan, Scan] \<and> r = Returned (Some ''SSE stream ended'')"
              using Suc.prems sc \<open>\<not> b\<close> s1 Line nc True s2 by auto
            then show ?thesis
              by (intro exI [of _ "[StopCheck InStream False, Scan, Scan]"] exI [of _ w3] exI [of _ "[]"]) simp
          next
            case (ReadError err)
            then have "t = [StopCheck InStream False, Scan, Scan] \<and> r = Returned (Some ''SSE stream ended'')"
              using Suc.prems sc \<open>\<not> b\<close> s1 Line nc True s2 by auto
            then show ?thesis
              by (intro exI [of _ "[StopCheck InStream False, Scan, Scan]"] exI [of _ w3] exI [of _ "[]"]) simp
          next
            case dl: (Line dataLine)
            obtain r4 t4 w4 where l: "sse_loop k env a w3 = (r4, t4, w4)"
              by (cases "sse_loop k env a w3") auto
            let ?h = "if \<not> HasPrefix dataLine ''data: '' then []
                      else handleSSEMessage env a (TrimPrefix dataLine ''data: '')"
            have "t = ([StopCheck InStream False, Scan, Scan] @ ?h) @ t4 \<and> r = r4 \<and> w' = w4"
              using Suc.prems sc \<open>\<not> b\<close> s1 Line nc True s2 dl l by (auto simp: prepend_def)
            moreover have "list_all reads_on ([StopCheck InStream False, Scan, Scan] @ ?h)"
              by (simp add: handleSSEMessage_reads_on)
            ultimately show ?thesis
              using l by (intro exI [of _ "[StopCheck InStream False, Scan, Scan] @ ?h"] exI [of _ w3] exI [of _ t4]) simp
          qed
        qed
      qed
      then obtain pre w3 t3 where pre: "list_all reads_on pre" and t: "t = pre @ t3"
        and alt: "sse_loop k env a w3 = (r, t3, w')
                        \<or> (r = Returned (Some ''SSE stream ended'') \<and> t3 = [])"
        by blast
      from alt show ?thesis
      proof
        assume "sse_loop k env a w3 = (r, t3, w')"
        from Suc.IH [OF this] show ?thesis
          using pre t by (auto split: fuel_result.splits option.splits)
      next
        assume "r = Returned (Some ''SSE stream ended'') \<and> t3 = []"
        then show ?thesis using pre t by simp
      qed
    qed
  qed
qed

lemma subscribeSSE_outcome:
  assumes "subscribeSSE k env a w = (r, t, w')"
  shows "\<exists>t'. t = SSEGet (sse_url a) # t' \<and>
     (case r of
        OutOfFuel \<Rightarrow> list_all reads_on t'
      | Returned None \<Rightarrow> (\<exists>pre. t' = pre @ [StopCheck InStream True] \<and> list_all reads_on pre)
      | Returned (Some e) \<Rightarrow>
          list_all reads_on t'
          \<and> (e = ''SSE stream ended'' \<or> (\<exists>x. e = ''SSE read error: '' @ x)
              \<or> (\<exists>c. c \<noteq> 200 \<and> e = ''SSE returned status '' @ show_int c)
              \<or> (\<exists>x. e = ''failed to connect SSE: '' @ x)))"
proof -
  obtain s w1 where g: "sse_get env (sse_url a) w = (s, w1)"
    by (cases "sse_get env (sse_url a) w") auto
  show ?thesis
  proof (cases s)
    case (SSEConnectError err)
    then have "r = Returned (Some (''failed to connect SSE: '' @ err)) \<and> t = [SSEGet (sse_url a)]"
      using assms g by (auto simp: subscribeSSE_def)
    then show ?thesis by simp
  next
    case (SSEResponse code)
    show ?thesis
    proof (cases "code = 200")
      case False
      then have "r = Returned (Some (''SSE returned status '' @ show_int code))
                 \<and> t = [SSEGet (sse_url a)]"
        using assms g SSEResponse by (auto simp: subscribeSSE_def)
      then show ?thesis using False by auto
    next
      case True
      obtain r3 t3 w3 where l: "sse_loop k env a w1 = (r3, t3, w3)"
        by (cases "sse_loop k env a w1") auto
      have eq: "t = SSEGet (sse_url a) # Log ''SSE connected, waiting for print jobs...'' [] # t3
                \<and> r = r3"
        using assms g SSEResponse True l by (auto simp: subscribeSSE_def prepend_def)
      show ?thesis
        using sse_loop_outcome [OF l] eq
        by (cases r3) (auto split: option.splits simp: Cons_eq_append_conv)
    qed
  qed
qed





lemma catchUp_starts_with_get:
  "\<exists>rest. fst (catchUpPendingJobs env a w) = HttpGet (pending_url a) # rest"
  by (simp add: catchUpPendingJobs_def Let_def case_prod_beta
      split: prod.splits http_reply.splits sum.splits)

lemma Run_Suc:
  assumes cu: "catchUpPendingJobs env a w = (t1, w1)"
    and sub: "subscribeSSE k env a w1 = (r2, t2, w2)"
  shows "Run k (Suc n) env a w =
     (case r2 of
        OutOfFuel \<Rightarrow>
          (OutOfFuel,
           [Log ''Catching up pending jobs...'' []] @ t1
           @ [Log ''Connecting to SSE at %s...'' [ArgStr (ServerURL (config a))]] @ t2, w2)
      | Returned err \<Rightarrow>
          (let t = [Log ''Catching up pending jobs...'' []] @ t1
                   @ [Log ''Connecting to SSE at %s...'' [ArgStr (ServerURL (config a))]] @ t2
                   @ (case err of
                        None \<Rightarrow> []
                      | Some e \<Rightarrow> [Log ''SSE connection lost: %v'' [ArgStr e]])
           in case stop_closed env w2 of
                (True, w3) \<Rightarrow>
                  (Returned (), t @ [StopCheck AfterStream True, Log ''Agent stopping...'' []], w3)
              | (False, w3) \<Rightarrow>
                  (let delay = retry_delay a;
                       t' = t @ [StopCheck AfterStream False,
                                 Log ''Reconnecting in %v...'' [ArgDuration delay],
                                 TimeAfter delay]
                   in case wait_or_stop env delay w3 of
                        (True, w4) \<Rightarrow> (Returned (), t' @ [StopCheck DuringDelay True], w4)
                      | (False, w4) \<Rightarrow>
                          prepend (t' @ [StopCheck DuringDelay False]) (Run k n env a w4))))"
  using assms by (simp split: fuel_result.splits)



lemma retry_delay_seconds:
  assumes "0 \<le> sint (RetryDelay (config a))" and "sint (RetryDelay (config a)) \<le> 9223372036"
  shows "sint (retry_delay a) = sint (RetryDelay (config a)) * 1000000000"
proof -
  have "sint (retry_delay a)
      = signed_take_bit 63 (sint (RetryDelay (config a)) * sint (1000000000 :: 64 word))"
    by (simp add: retry_delay_def sint_word_ariths)
  also have "sint (1000000000 :: 64 word) = 1000000000"
    by simp
  also have "signed_take_bit 63 (sint (RetryDelay (config a)) * 1000000000)
      = sint (RetryDelay (config a)) * 1000000000"
    using assms by (intro signed_take_bit_int_eq_self) auto
  finally show ?thesis .
qed

text \<open>
  C4.  Whenever the subscription returns without the stop channel having been read as
  closed in the read loop, it returns an error: the stream ended (\<^verbatim>\<open>SSE stream ended\<close>),
  a read failed, the server answered the connection with a status other than 200, or the
  connection failed.  The agent then logs \<^verbatim>\<open>SSE connection lost\<close> and, the stop channel
  being open, starts the timer for the configured retry delay; when the timer fires, the
  next cycle begins, with the catch-up request first.  A status other than 200, a clean
  end of the stream and a read error each make the subscription return such an error.
  The duration of the timer is the configured number of seconds, in nanoseconds, as long
  as the 64-bit multiplication does not overflow.
\<close>

theorem stream_end_reconnects:
  assumes "catchUpPendingJobs env a w = (t1, w1)"
    and "subscribeSSE k env a w1 = (Returned err, t2, w2)"
    and "StopCheck InStream True \<notin> set t2"
    and "stop_closed env w2 = (False, w3)"
    and "wait_or_stop env (retry_delay a) w3 = (False, w4)"
  shows "(\<exists>e. err = Some e
            \<and> (e = ''SSE stream ended'' \<or> (\<exists>x. e = ''SSE read error: '' @ x)
                \<or> (\<exists>c. c \<noteq> 200 \<and> e = ''SSE returned status '' @ show_int c)
                \<or> (\<exists>x. e = ''failed to connect SSE: '' @ x))
            \<and> Run k (Suc (Suc n)) env a w =
                prepend ([Log ''Catching up pending jobs...'' []] @ t1
                         @ [Log ''Connecting to SSE at %s...'' [ArgStr (ServerURL (config a))]]
                         @ t2
                         @ [Log ''SSE connection lost: %v'' [ArgStr e],
                            StopCheck AfterStream False,
                            Log ''Reconnecting in %v...'' [ArgDuration (retry_delay a)],
                            TimeAfter (retry_delay a),
                            StopCheck DuringDelay False])
                  (Run k (Suc n) env a w4))
       \<and> (\<exists>rest. fst (snd (Run k (Suc n) env a w4))
                    = Log ''Catching up pending jobs...'' [] # HttpGet (pending_url a) # rest)
       \<and> (\<forall>v c v'. sse_get env (sse_url a) v = (SSEResponse c, v') \<longrightarrow> c \<noteq> 200 \<longrightarrow>
             subscribeSSE k env a v
               = (Returned (Some (''SSE returned status '' @ show_int c)), [SSEGet (sse_url a)], v'))
       \<and> (\<forall>v v1 v2 m. stop_closed env v = (False, v1) \<longrightarrow> sse_scan env v1 = (EndOfStream, v2) \<longrightarrow>
             sse_loop (Suc m) env a v
               = (Returned (Some ''SSE stream ended''), [StopCheck InStream False, Scan], v2))
       \<and> (\<forall>v v1 v2 m x. stop_closed env v = (False, v1) \<longrightarrow> sse_scan env v1 = (ReadError x, v2) \<longrightarrow>
             sse_loop (Suc m) env a v
               = (Returned (Some (''SSE read error: '' @ x)), [StopCheck InStream False, Scan], v2))
       \<and> (0 \<le> sint (RetryDelay (config a)) \<longrightarrow> sint (RetryDelay (config a)) \<le> 9223372036 \<longrightarrow>
             sint (retry_delay a) = sint (RetryDelay (config a)) * 1000000000)"
proof (intro conjI)
  obtain t' where t2: "t2 = SSEGet (sse_url a) # t'"
    and c: "(case err of
        None \<Rightarrow> (\<exists>pre. t' = pre @ [StopCheck InStream True] \<and> list_all reads_on pre)
      | Some e \<Rightarrow> list_all reads_on t'
          \<and> (e = ''SSE stream ended'' \<or> (\<exists>x. e = ''SSE read error: '' @ x)
              \<or> (\<exists>c. c \<noteq> 200 \<and> e = ''SSE returned status '' @ show_int c)
              \<or> (\<exists>x. e = ''failed to connect SSE: '' @ x)))"
    using subscribeSSE_outcome [OF assms(2)] by auto
  have "err \<noteq> None"
    using c t2 assms(3) by (cases err) auto
  then obtain e where e: "err = Some e"
    by auto
  have kind: "e = ''SSE stream ended'' \<or> (\<exists>x. e = ''SSE read error: '' @ x)
              \<or> (\<exists>c. c \<noteq> 200 \<and> e = ''SSE returned status '' @ show_int c)
              \<or> (\<exists>x. e = ''failed to connect SSE: '' @ x)"
    using c e by simp
  have run: "Run k (Suc (Suc n)) env a w =
                prepend ([Log ''Catching up pending jobs...'' []] @ t1
                         @ [Log ''Connecting to SSE at %s...'' [ArgStr (ServerURL (config a))]]
                         @ t2
                         @ [Log ''SSE connection lost: %v'' [ArgStr e],
                            StopCheck AfterStream False,
                            Log ''Reconnecting in %v...'' [ArgDuration (retry_delay a)],
                            TimeAfter (retry_delay a),
                            StopCheck DuringDelay False])
                  (Run k (Suc n) env a w4)"
    using assms(4,5) e
    by (simp add: Run_Suc [OF assms(1) assms(2)] Let_def del: Run.simps)
  show "\<exists>e. err = Some e
            \<and> (e = ''SSE stream ended'' \<or> (\<exists>x. e = ''SSE read error: '' @ x)
                \<or> (\<exists>c. c \<noteq> 200 \<and> e = ''SSE returned status '' @ show_int c)
                \<or> (\<exists>x. e = ''failed to connect SSE: '' @ x))
            \<and> Run k (Suc (Suc n)) env a w =
                prepend ([Log ''Catching up pending jobs...'' []] @ t1
                         @ [Log ''Connecting to SSE at %s...'' [ArgStr (ServerURL (config a))]]
                         @ t2
                         @ [Log ''SSE connection lost: %v'' [ArgStr e],
                            StopCheck AfterStream False,
                            Log ''Reconnecting in %v...'' [ArgDuration (retry_delay a)],
                            TimeAfter (retry_delay a),
                            StopCheck DuringDelay False])
                  (Run k (Suc n) env a w4)"
    using e kind run by (intro exI [of _ e] conjI)
next
  obtain rest where r: "fst (catchUpPendingJobs env a w4) = HttpGet (pending_url a) # rest"
    using catchUp_starts_with_get [of env a w4] by auto
  obtain r2 t2' w2' where sub: "subscribeSSE k env a (snd (catchUpPendingJobs env a w4)) = (r2, t2', w2')"
    by (cases "subscribeSSE k env a (snd (catchUpPendingJobs env a w4))") auto
  have cu: "catchUpPendingJobs env a w4 = (HttpGet (pending_url a) # rest, snd (catchUpPendingJobs env a w4))"
    using r by (cases "catchUpPendingJobs env a w4") simp
  show "\<exists>rest. fst (snd (Run k (Suc n) env a w4))
                    = Log ''Catching up pending jobs...'' [] # HttpGet (pending_url a) # rest"
    by (simp add: Run_Suc [OF cu sub] Let_def case_prod_beta del: Run.simps
        split: fuel_result.splits bool.splits prod.splits)
next
  show "\<forall>v c v'. sse_get env (sse_url a) v = (SSEResponse c, v') \<longrightarrow> c \<noteq> 200 \<longrightarrow>
             subscribeSSE k env a v
               = (Returned (Some (''SSE returned status '' @ show_int c)), [SSEGet (sse_url a)], v')"
    by (simp add: subscribeSSE_def)
next
  show "\<forall>v v1 v2 m. stop_closed env v = (False, v1) \<longrightarrow> sse_scan env v1 = (EndOfStream, v2) \<longrightarrow>
             sse_loop (Suc m) env a v
               = (Returned (Some ''SSE stream ended''), [StopCheck InStream False, Scan], v2)"
    by simp
next
  show "\<forall>v v1 v2 m x. stop_closed env v = (False, v1) \<longrightarrow> sse_scan env v1 = (ReadError x, v2) \<longrightarrow>
             sse_loop (Suc m) env a v
               = (Returned (Some (''SSE read error: '' @ x)), [StopCheck InStream False, Scan], v2)"
    by simp
next
  show "0 \<le> sint (RetryDelay (config a)) \<longrightarrow> sint (RetryDelay (config a)) \<le> 9223372036 \<longrightarrow>
             sint (retry_delay a) = sint (RetryDelay (config a)) * 1000000000"
    by (simp add: retry_delay_seconds)
qed

theorem stream_end_reconnects_witness:
  "subscribeSSE 1 (sample_env False Printed) sample_agent
       (snd (catchUpPendingJobs (sample_env False Printed) sample_agent []))
     = (Returned (Some ''SSE stream ended''),
        [SSEGet (sse_url sample_agent), Log ''SSE connected, waiting for print jobs...'' [],
         StopCheck InStream False, Scan], [])
   \<and> Run 1 (Suc (Suc 0)) (sample_env False Printed) sample_agent [] =
        prepend ([Log ''Catching up pending jobs...'' []]
                 @ fst (catchUpPendingJobs (sample_env False Printed) sample_agent [])
                 @ [Log ''Connecting to SSE at %s...'' [ArgStr (ServerURL (config sample_agent))]]
                 @ [SSEGet (sse_url sample_agent),
                    Log ''SSE connected, waiting for print jobs...'' [],
                    StopCheck InStream False, Scan]
                 @ [Log ''SSE connection lost: %v'' [ArgStr ''SSE stream ended''],
                    StopCheck AfterStream False,
                    Log ''Reconnecting in %v...'' [ArgDuration (retry_delay sample_agent)],
                    TimeAfter (retry_delay sample_agent),
                    StopCheck DuringDelay False])
          (Run 1 (Suc 0) (sample_env False Printed) sample_agent [])
   \<and> subscribeSSE 1 refusing_env sample_agent
       (snd (catchUpPendingJobs refusing_env sample_agent []))
     = (Returned (Some ''SSE returned status 503''), [SSEGet (sse_url sample_agent)], [])
   \<and> Run 1 (Suc (Suc 0)) refusing_env sample_agent [] =
        prepend ([Log ''Catching up pending jobs...'' []]
                 @ fst (catchUpPendingJobs refusing_env sample_agent [])
                 @ [Log ''Connecting to SSE at %s...'' [ArgStr (ServerURL (config sample_agent))]]
                 @ [SSEGet (sse_url sample_agent)]
                 @ [Log ''SSE connection lost: %v'' [ArgStr ''SSE returned status 503''],
                    StopCheck AfterStream False,
                    Log ''Reconnecting in %v...'' [ArgDuration (retry_delay sample_agent)],
                    TimeAfter (retry_delay sample_agent),
                    StopCheck DuringDelay False])
          (Run 1 (Suc 0) refusing_env sample_agent [])
   \<and> sse_loop (Suc 0) (sample_env False Printed) sample_agent [ReadError ''connection reset'']
     = (Returned (Some ''SSE read error: connection reset''), [StopCheck InStream False, Scan], [])
   \<and> sint (retry_delay sample_agent) = 5 * 1000000000"
proof -
  have h1: "catchUpPendingJobs refusing_env sample_agent []
      = (fst (catchUpPendingJobs refusing_env sample_agent []),
         snd (catchUpPendingJobs refusing_env sample_agent []))"
    by simp
  have h2: "subscribeSSE 1 refusing_env sample_agent
       (snd (catchUpPendingJobs refusing_env sample_agent []))
     = (Returned (Some ''SSE returned status 503''), [SSEGet (sse_url sample_agent)], [])"
    by code_simp
  have h3: "StopCheck InStream True \<notin> set [SSEGet (sse_url sample_agent)]"
    by simp
  have h4: "stop_closed refusing_env [] = (False, [])"
    by (simp add: refusing_env_def sample_env_def)
  have h5: "wait_or_stop refusing_env (retry_delay sample_agent) [] = (False, [])"
    by (simp add: refusing_env_def sample_env_def)
  note th = stream_end_reconnects [OF h1 h2 h3 h4 h5, of 0]
  have a: "Run 1 (Suc (Suc 0)) refusing_env sample_agent [] =
        prepend ([Log ''Catching up pending jobs...'' []]
                 @ fst (catchUpPendingJobs refusing_env sample_agent [])
                 @ [Log ''Connecting to SSE at %s...'' [ArgStr (ServerURL (config sample_agent))]]
                 @ [SSEGet (sse_url sample_agent)]
                 @ [Log ''SSE connection lost: %v'' [ArgStr ''SSE returned status 503''],
                    StopCheck AfterStream False,
                    Log ''Reconnecting in %v...'' [ArgDuration (retry_delay sample_agent)],
                    TimeAfter (retry_delay sample_agent),
                    StopCheck DuringDelay False])
          (Run 1 (Suc 0) refusing_env sample_agent [])"
    using th [THEN conjunct1] by (auto simp del: Run.simps)
  have s: "stop_closed (sample_env False Printed) [ReadError ''connection reset'']
             = (False, [ReadError ''connection reset''])"
    by (simp add: sample_env_def)
  have r: "sse_scan (sample_env False Printed) [ReadError ''connection reset'']
             = (ReadError ''connection reset'', [])"
    by (simp add: sample_env_def)
  have h1': "catchUpPendingJobs (sample_env False Printed) sample_agent []
      = (fst (catchUpPendingJobs (sample_env False Printed) sample_agent []),
         snd (catchUpPendingJobs (sample_env False Printed) sample_agent []))"
    by simp
  have h2': "subscribeSSE 1 (sample_env False Printed) sample_agent
       (snd (catchUpPendingJobs (sample_env False Printed) sample_agent []))
     = (Returned (Some ''SSE stream ended''),
        [SSEGet (sse_url sample_agent), Log ''SSE connected, waiting for print jobs...'' [],
         StopCheck InStream False, Scan], [])"
    by code_simp
  have h3': "StopCheck InStream True \<notin> set
        [SSEGet (sse_url sample_agent), Log ''SSE connected, waiting for print jobs...'' [],
         StopCheck InStream False, Scan]"
    by simp
  have h4': "stop_closed (sample_env False Printed) [] = (False, [])"
    by (simp add: sample_env_def)
  have h5': "wait_or_stop (sample_env False Printed) (retry_delay sample_agent) [] = (False, [])"
    by (simp add: sample_env_def)
  note th' = stream_end_reconnects [OF h1' h2' h3' h4' h5', of 0]
  have b: "sse_loop (Suc 0) (sample_env False Printed) sample_agent [ReadError ''connection reset'']
     = (Returned (Some (''SSE read error: '' @ ''connection reset'')), [StopCheck InStream False, Scan], [])"
    using th' [THEN conjunct2, THEN conjunct2, THEN conjunct2, THEN conjunct2, THEN conjunct1,
               rule_format, OF s r] .
  have lo: "0 \<le> sint (RetryDelay (config sample_agent))"
    and hi: "sint (RetryDelay (config sample_agent)) \<le> 9223372036"
    by (simp_all add: sample_agent_def NewPrintAgent_def)
  have v: "sint (RetryDelay (config sample_agent)) = 5"
    by (simp add: sample_agent_def NewPrintAgent_def)
  have c: "sint (retry_delay sample_agent) = 5 * 1000000000"
    using th [THEN conjunct2, THEN conjunct2, THEN conjunct2, THEN conjunct2, THEN conjunct2,
              rule_format, OF lo hi] unfolding v .
  have a': "Run 1 (Suc (Suc 0)) (sample_env False Printed) sample_agent [] =
        prepend ([Log ''Catching up pending jobs...'' []]
                 @ fst (catchUpPendingJobs (sample_env False Printed) sample_agent [])
                 @ [Log ''Connecting to SSE at %s...'' [ArgStr (ServerURL (config sample_agent))]]
                 @ [SSEGet (sse_url sample_agent),
                    Log ''SSE connected, waiting for print jobs...'' [],
                    StopCheck InStream False, Scan]
                 @ [Log ''SSE connection lost: %v'' [ArgStr ''SSE stream ended''],
                    StopCheck AfterStream False,
                    Log ''Reconnecting in %v...'' [ArgDuration (retry_delay sample_agent)],
                    TimeAfter (retry_delay sample_agent),
                    StopCheck DuringDelay False])
          (Run 1 (Suc 0) (sample_env False Printed) sample_agent [])"
    using th' [THEN conjunct1] by (auto simp del: Run.simps)
  show ?thesis
    using h2' a' h2 a b c by (intro conjI) simp_all
qed
















lemma stream_job_unfinished_at_stop:
  "sse_sched [Reader, Reader] stop_when_read_env sample_agent
      [Line ''event: message'', Line ''data: print_job 42''] []
     = (Returned None,
        [StopCheck InStream False, Scan, Scan,
         Log ''Received print job #%d for %s'' [ArgInt 42, ArgStr ''A001''],
         Go 42, StopCheck InStream True],
        [], [Start 42])"
  by code_simp




section \<open>Claims and reports on the job store\<close>

lemma claim_all_not_pending:
  "job_status job \<noteq> Pending \<Longrightarrow> claim_all job agents = (replicate (length agents) Conflict, job)"
  by (induction agents) (simp_all add: claim_def)

text \<open>
  C1.  On the job store as the specification describes it: a claim changes the status of
  a job to claimed only when the job was pending.  When the store takes a sequence of
  claim attempts on a pending job, in whatever order, the first one taken succeeds and is
  recorded as the claimant, and every other attempt is answered with a conflict; on a job
  that is not pending every attempt is answered with a conflict and the job is unchanged.
  So exactly one attempt on a pending job succeeds, and never more than one on any job.
\<close>

theorem claim_exactly_one_succeeds:
  "(job_status job = Pending \<longrightarrow>
      claim_all job (agentID # agents)
        = (ClaimOK (job\<lparr>job_status := Claimed, claimed_by := Some agentID\<rparr>)
             # replicate (length agents) Conflict,
           job\<lparr>job_status := Claimed, claimed_by := Some agentID\<rparr>))
   \<and> (job_status job \<noteq> Pending \<longrightarrow>
        claim_all job agents = (replicate (length agents) Conflict, job))
   \<and> (job_status job \<noteq> Claimed \<longrightarrow> job_status (snd (claim job agentID)) = Claimed \<longrightarrow>
        job_status job = Pending)"
proof (intro conjI impI)
  assume p: "job_status job = Pending"
  have "job_status (job\<lparr>job_status := Claimed, claimed_by := Some agentID\<rparr>) \<noteq> Pending"
    by simp
  from claim_all_not_pending [OF this, of agents] p
  show "claim_all job (agentID # agents)
        = (ClaimOK (job\<lparr>job_status := Claimed, claimed_by := Some agentID\<rparr>)
             # replicate (length agents) Conflict,
           job\<lparr>job_status := Claimed, claimed_by := Some agentID\<rparr>)"
    by (simp add: claim_def Let_def)
next
  assume "job_status job \<noteq> Pending"
  then show "claim_all job agents = (replicate (length agents) Conflict, job)"
    by (rule claim_all_not_pending)
next
  assume "job_status job \<noteq> Claimed" and "job_status (snd (claim job agentID)) = Claimed"
  then show "job_status job = Pending"
    by (simp add: claim_def split: if_splits)
qed

theorem claim_exactly_one_succeeds_witness:
  "job_status \<lparr>job_id = 42, job_status = Pending, claimed_by = None, error_message = None\<rparr>
     = Pending
   \<and> claim_all \<lparr>job_id = 42, job_status = Pending, claimed_by = None, error_message = None\<rparr>
        [''printer-2'', ''printer-1'', ''printer-3'']
     = ([ClaimOK \<lparr>job_id = 42, job_status = Claimed, claimed_by = Some ''printer-2'',
                  error_message = None\<rparr>, Conflict, Conflict],
        \<lparr>job_id = 42, job_status = Claimed, claimed_by = Some ''printer-2'',
          error_message = None\<rparr>)
   \<and> claim_all \<lparr>job_id = 42, job_status = Completed, claimed_by = Some ''printer-2'',
                 error_message = None\<rparr> [''printer-1'', ''printer-3'']
     = ([Conflict, Conflict],
        \<lparr>job_id = 42, job_status = Completed, claimed_by = Some ''printer-2'',
          error_message = None\<rparr>)"
  using claim_exactly_one_succeeds
          [of "\<lparr>job_id = 42, job_status = Pending, claimed_by = None, error_message = None\<rparr>"
              "''printer-2''" "[''printer-1'', ''printer-3'']"]
        claim_exactly_one_succeeds
          [of "\<lparr>job_id = 42, job_status = Completed, claimed_by = Some ''printer-2'',
                error_message = None\<rparr>"
              "''printer-2''" "[''printer-1'', ''printer-3'']"]
  by simp

lemma report_terminal:
  "job_status job = Completed \<or> job_status job = Failed \<Longrightarrow> report job c = (200, job)"
  by (cases c) (auto simp: complete_def fail_def)

text \<open>
  C6.  On the job store as the specification describes it: on a job that is completed or
  failed, every further sequence of complete and fail calls is answered with status 200
  each time and leaves the job as it is, status and error message included.
\<close>

theorem reports_on_terminal_job:
  assumes "job_status job = Completed \<or> job_status job = Failed"
  shows "reports job calls = (replicate (length calls) 200, job)"
  using assms by (induction calls) (simp_all add: report_terminal)

theorem reports_on_terminal_job_witness:
  "job_status (snd (complete (snd (claim
       \<lparr>job_id = 42, job_status = Pending, claimed_by = None, error_message = None\<rparr>
       ''printer-1'')))) = Completed
   \<and> reports (snd (complete (snd (claim
         \<lparr>job_id = 42, job_status = Pending, claimed_by = None, error_message = None\<rparr>
         ''printer-1''))))
       [FailCall ''printer offline'', CompleteCall]
     = ([200, 200],
        \<lparr>job_id = 42, job_status = Completed, claimed_by = Some ''printer-1'',
          error_message = None\<rparr>)"
proof -
  have c: "snd (complete (snd (claim
       \<lparr>job_id = 42, job_status = Pending, claimed_by = None, error_message = None\<rparr>
       ''printer-1'')))
     = \<lparr>job_id = 42, job_status = Completed, claimed_by = Some ''printer-1'',
          error_message = None\<rparr>"
    by (simp add: complete_def claim_def Let_def)
  have t: "job_status \<lparr>job_id = 42, job_status = Completed, claimed_by = Some ''printer-1'',
          error_message = None\<rparr> = Completed
     \<or> job_status \<lparr>job_id = 42, job_status = Completed, claimed_by = Some ''printer-1'',
          error_message = None\<rparr> = Failed"
    by simp
  show ?thesis
    using reports_on_terminal_job [OF t, of "[FailCall ''printer offline'', CompleteCall]"]
    unfolding c by simp
qed

end
